theory Spec2Isabelle
  imports Main "HOL-Library.Sublist"
begin

unbundle bit_operations_syntax

section \<open>JavaScript strings\<close>

text \<open>
  The certificate parser of \<^verbatim>\<open>src/lib/certificate-parser.ts\<close> works on JavaScript
  strings. A JavaScript string is a sequence of UTF-16 code units; \<^verbatim>\<open>length\<close>,
  \<^verbatim>\<open>charCodeAt\<close>, \<^verbatim>\<open>trim\<close> and the regular expressions of the source all count code
  units, so a string is modelled as a list of code units (natural numbers below 65536).
  The binary strings of the decoder library (DER bytes) are strings whose code units
  are below 256. \<open>js\<close> turns a literal into its code units.
\<close>

type_synonym code_unit = nat
type_synonym jsstring = "code_unit list"

definition js :: "string \<Rightarrow> jsstring" where
  "js s = map of_char s"

text \<open>
  The white space of \<^verbatim>\<open>String.prototype.trim\<close> and of the class \<^verbatim>\<open>\s\<close>: the WhiteSpace
  and LineTerminator productions of ECMAScript.
\<close>

definition isWhiteSpace :: "code_unit \<Rightarrow> bool" where
  "isWhiteSpace c =
     (c \<in> set [0x09, 0x0A, 0x0B, 0x0C, 0x0D, 0x20, 0xA0, 0x1680,
                0x2000, 0x2001, 0x2002, 0x2003, 0x2004, 0x2005, 0x2006, 0x2007,
                0x2008, 0x2009, 0x200A, 0x2028, 0x2029, 0x202F, 0x205F, 0x3000, 0xFEFF])"

text \<open>The line terminators, which the regular expression \<^verbatim>\<open>.\<close> does not match.\<close>

definition isLineTerminator :: "code_unit \<Rightarrow> bool" where
  "isLineTerminator c = (c \<in> set [0x0A, 0x0D, 0x2028, 0x2029])"

definition str_trim :: "jsstring \<Rightarrow> jsstring" where
  "str_trim s = rev (dropWhile isWhiteSpace (rev (dropWhile isWhiteSpace s)))"

definition str_startsWith :: "jsstring \<Rightarrow> jsstring \<Rightarrow> bool" where
  "str_startsWith s p = (take (length p) s = p)"

definition str_endsWith :: "jsstring \<Rightarrow> jsstring \<Rightarrow> bool" where
  "str_endsWith s p = (length p \<le> length s \<and> drop (length s - length p) s = p)"

text \<open>\<^verbatim>\<open>s.includes(p)\<close>: \<open>p\<close> occurs at some position of \<open>s\<close>.\<close>

fun str_includes :: "jsstring \<Rightarrow> jsstring \<Rightarrow> bool" where
  "str_includes [] p = (p = [])"
| "str_includes (c # cs) p = (str_startsWith (c # cs) p \<or> str_includes cs p)"

text \<open>\<^verbatim>\<open>xs.join(sep)\<close> on an array of strings.\<close>

fun str_join :: "jsstring \<Rightarrow> jsstring list \<Rightarrow> jsstring" where
  "str_join sep [] = []"
| "str_join sep [x] = x"
| "str_join sep (x # y # ys) = x @ sep @ str_join sep (y # ys)"

section \<open>The format validator\<close>

definition BEGIN_CERTIFICATE :: jsstring where
  "BEGIN_CERTIFICATE = js ''-----BEGIN CERTIFICATE-----''"

definition END_CERTIFICATE :: jsstring where
  "END_CERTIFICATE = js ''-----END CERTIFICATE-----''"

text \<open>\<^verbatim>\<open>validateCertificateFormat(certText)\<close>, with its four conjuncts in the source's order.\<close>

definition validateCertificateFormat :: "jsstring \<Rightarrow> bool" where
  "validateCertificateFormat certText =
     (let trimmed = str_trim certText in
        str_includes trimmed BEGIN_CERTIFICATE \<and>
        str_includes trimmed END_CERTIFICATE \<and>
        str_startsWith trimmed BEGIN_CERTIFICATE \<and>
        str_endsWith trimmed END_CERTIFICATE)"

section \<open>More of JavaScript's strings and numbers\<close>

text \<open>
  \<^verbatim>\<open>s.replace(/pattern/g, replacement)\<close> for a pattern that is a literal, non-empty
  text: every occurrence, scanning from the left, is replaced.
\<close>

function str_replaceAll :: "jsstring \<Rightarrow> jsstring \<Rightarrow> jsstring \<Rightarrow> jsstring" where
  "str_replaceAll pat rep s =
     (if s = [] \<or> pat = [] then s
      else if str_startsWith s pat then rep @ str_replaceAll pat rep (drop (length pat) s)
      else hd s # str_replaceAll pat rep (tl s))"
  by pat_completeness auto
termination
  by (relation "measure (\<lambda>(pat, rep, s). length s)") auto

declare str_replaceAll.simps [simp del]

text \<open>\<^verbatim>\<open>s.split(sep)\<close> for a separator of one code unit; the empty string splits into one empty part.\<close>

fun str_split :: "code_unit \<Rightarrow> jsstring \<Rightarrow> jsstring list" where
  "str_split sep [] = [[]]"
| "str_split sep (c # cs) =
     (if c = sep then [] # str_split sep cs
      else (case str_split sep cs of [] \<Rightarrow> [[c]] | p # ps \<Rightarrow> (c # p) # ps))"

text \<open>
  The matches of the regular expression \<^verbatim>\<open>/.{1,2}/g\<close>, from the left: greedy groups of two
  code units, where a line terminator is never matched and ends the group before it.
  \<^verbatim>\<open>s.match(...)\<close> is \<^verbatim>\<open>null\<close> when there is no match.
\<close>

fun match_pairs :: "jsstring \<Rightarrow> jsstring list" where
  "match_pairs [] = []"
| "match_pairs [a] = (if isLineTerminator a then [] else [[a]])"
| "match_pairs (a # b # cs) =
     (if isLineTerminator a then match_pairs (b # cs)
      else if isLineTerminator b then [a] # match_pairs cs
      else [a, b] # match_pairs cs)"

definition str_match_pairs :: "jsstring \<Rightarrow> jsstring list option" where
  "str_match_pairs s = (case match_pairs s of [] \<Rightarrow> None | m # ms \<Rightarrow> Some (m # ms))"

text \<open>\<^verbatim>\<open>a || b\<close> where \<open>a\<close> is a string or undefined: the empty string is falsy.\<close>

definition str_or :: "jsstring option \<Rightarrow> jsstring \<Rightarrow> jsstring" where
  "str_or a b = (case a of None \<Rightarrow> b | Some x \<Rightarrow> if x = [] then b else x)"

text \<open>
  \<^verbatim>\<open>toUpperCase\<close> and \<^verbatim>\<open>toLowerCase\<close> on the letters a to z. The source applies them to
  the digits of a number and to the names of the decoder's extension table, which are
  ASCII; other code units are left as they are.
\<close>

definition toUpperCase :: "jsstring \<Rightarrow> jsstring" where
  "toUpperCase s = map (\<lambda>c. if 97 \<le> c \<and> c \<le> 122 then c - 32 else c) s"

definition toLowerCase :: "jsstring \<Rightarrow> jsstring" where
  "toLowerCase s = map (\<lambda>c. if 65 \<le> c \<and> c \<le> 90 then c + 32 else c) s"

definition padStart :: "nat \<Rightarrow> code_unit \<Rightarrow> jsstring \<Rightarrow> jsstring" where
  "padStart n c s = replicate (n - length s) c @ s"

text \<open>
  \<^verbatim>\<open>Array.from(s)\<close> splits a string into code points: a high surrogate followed by a low
  surrogate is one element. \<^verbatim>\<open>s.split('')\<close> splits into code units.
\<close>

fun array_from :: "jsstring \<Rightarrow> jsstring list" where
  "array_from [] = []"
| "array_from [a] = [[a]]"
| "array_from (a # b # cs) =
     (if 0xD800 \<le> a \<and> a \<le> 0xDBFF \<and> 0xDC00 \<le> b \<and> b \<le> 0xDFFF
      then [a, b] # array_from cs else [a] # array_from (b # cs))"

definition split_units :: "jsstring \<Rightarrow> jsstring list" where
  "split_units s = map (\<lambda>c. [c]) s"

text \<open>
  Numbers. A JavaScript number is modelled as an integer or NaN; the model is exact for
  integers up to \<open>2 ^ 53\<close>, which a double holds exactly. The arbitrary-precision integers
  of the decoder library (modulus and exponent) are natural numbers. Both render in a
  radix with the digits \<^verbatim>\<open>0-9a-z\<close>, without leading zeros; the source renders in the
  radices 2, 10 and 16.
\<close>

datatype js_number = NaN | Num int

definition digit_char :: "nat \<Rightarrow> code_unit" where
  "digit_char d = (if d < 10 then 48 + d else 87 + d)"

function digits_radix :: "nat \<Rightarrow> nat \<Rightarrow> jsstring" where
  "digits_radix b n =
     (if n < b \<or> b < 2 then [digit_char n]
      else digits_radix b (n div b) @ [digit_char (n mod b)])"
  by pat_completeness auto
termination
  by (relation "measure (\<lambda>(b, n). n)") auto

declare digits_radix.simps [simp del]

definition bigint_toString :: "nat \<Rightarrow> nat \<Rightarrow> jsstring" where
  "bigint_toString radix n = digits_radix radix n"

text \<open>\<^verbatim>\<open>n.bitLength()\<close>: the number of binary digits, 0 for zero.\<close>

definition bitLength :: "nat \<Rightarrow> nat" where
  "bitLength n = (if n = 0 then 0 else length (digits_radix 2 n))"

definition number_toString :: "nat \<Rightarrow> js_number \<Rightarrow> jsstring" where
  "number_toString radix x =
     (case x of
        NaN \<Rightarrow> js ''NaN''
      | Num v \<Rightarrow> if v < 0 then js ''-'' @ digits_radix radix (nat (- v))
                 else digits_radix radix (nat v))"

definition isDigit :: "code_unit \<Rightarrow> bool" where
  "isDigit c = (48 \<le> c \<and> c \<le> 57)"

definition digits_value :: "jsstring \<Rightarrow> nat" where
  "digits_value ds = foldl (\<lambda>acc d. 10 * acc + (d - 48)) 0 ds"

text \<open>
  \<^verbatim>\<open>parseInt(s, 10)\<close>: leading white space is skipped, a sign is read, and the longest
  run of decimal digits is the value; NaN when there is no digit.
\<close>

definition parseInt10 :: "jsstring \<Rightarrow> js_number" where
  "parseInt10 s =
     (let t = dropWhile isWhiteSpace s;
          negative = (t \<noteq> [] \<and> hd t = 45);
          u = (if t \<noteq> [] \<and> (hd t = 45 \<or> hd t = 43) then tl t else t);
          ds = takeWhile isDigit u
      in if ds = [] then NaN
         else Num ((if negative then - 1 else 1) * int (digits_value ds)))"

section \<open>Formatting helpers\<close>

text \<open>\<^verbatim>\<open>formatSerialNumber\<close>, the local function of \<^verbatim>\<open>parseCertificateWithForge\<close>.\<close>

definition formatSerialNumber :: "jsstring \<Rightarrow> jsstring" where
  "formatSerialNumber serial =
     (let cleanSerial = filter (\<lambda>c. c \<noteq> 58) serial in
        str_or (map_option (str_join (js '':'')) (str_match_pairs cleanSerial)) serial)"

text \<open>The loop of \<^verbatim>\<open>formatModulus\<close>: \<open>i\<close> runs over the parts in steps of 15.\<close>

function modulus_lines :: "jsstring list \<Rightarrow> nat \<Rightarrow> jsstring list \<Rightarrow> jsstring list" where
  "modulus_lines parts i lines =
     (if i < length parts
      then modulus_lines parts (i + 15)
             (lines @ [str_join (js '':'') (take 15 (drop i parts))])
      else lines)"
  by pat_completeness auto
termination
  by (relation "measure (\<lambda>(parts, i, lines). length parts - i)") auto

declare modulus_lines.simps [simp del]

definition formatModulus :: "jsstring \<Rightarrow> jsstring" where
  "formatModulus hexData =
     (let cleanHex = filter (\<lambda>c. \<not> (c = 58 \<or> isWhiteSpace c)) hexData;
          withColons = str_or (map_option (str_join (js '':'')) (str_match_pairs cleanHex)) cleanHex;
          parts = str_split 58 withColons;
          lines = modulus_lines parts 0 []
      in str_join (10 # replicate 20 32) lines)"

definition formatExponent :: "jsstring \<Rightarrow> jsstring" where
  "formatExponent decimalData =
     (let decimalValue = parseInt10 decimalData;
          hexValue = toUpperCase (number_toString 16 decimalValue)
      in number_toString 10 decimalValue @ js '' (0x'' @ hexValue @ js '')'')"

section \<open>The decoded certificate\<close>

text \<open>
  \<^verbatim>\<open>forge.pki.certificateFromPem\<close> of the decoder library node-forge turns the PEM text
  into a certificate object. The records below hold what the source reads of it.
  A value of TypeScript's type \<^verbatim>\<open>unknown\<close> that the source only tests (\<^verbatim>\<open>x && typeof x
  === 'string'\<close>) is \<open>Undefined\<close>, a string, or any other value with its truthiness.
\<close>

datatype unknown = Undefined | Str jsstring | Other bool

definition truthy :: "unknown \<Rightarrow> bool" where
  "truthy u = (case u of Undefined \<Rightarrow> False | Str s \<Rightarrow> s \<noteq> [] | Other b \<Rightarrow> b)"

text \<open>\<^verbatim>\<open>x && typeof x === 'string'\<close>: the string when it holds.\<close>

definition truthy_string :: "unknown \<Rightarrow> jsstring option" where
  "truthy_string u = (case u of Str s \<Rightarrow> if s = [] then None else Some s | _ \<Rightarrow> None)"

datatype attribute_value = Single jsstring | Multi "jsstring list"

record attribute =
  attr_name :: "jsstring option"
  attr_value :: attribute_value

text \<open>
  The value of an extension: undefined, a string (the decoder delivers the DER bytes as a
  binary string), an array of strings, or any other object, given by its
  \<^verbatim>\<open>JSON.stringify\<close> text. The decoder assigns \<^verbatim>\<open>value\<close> and \<^verbatim>\<open>critical\<close> on every extension
  and \<^verbatim>\<open>name\<close> only for an object identifier of its table.
\<close>

datatype extension_value = NoValue | StrValue jsstring | ArrValue "jsstring list" | ObjValue jsstring

record forge_extension =
  ext_name :: "jsstring option"
  ext_value :: extension_value
  ext_critical :: bool

record public_key =
  pk_algorithm :: unknown
  pk_algorithmName :: unknown
  pk_n :: "nat option"
  pk_e :: "nat option"
  pk_curve :: unknown
  pk_y :: unknown
  pk_p :: unknown
  pk_q :: unknown
  pk_g :: unknown

text \<open>Dates are time values: milliseconds since the epoch.\<close>

record forge_cert =
  cert_version :: "int option"
  cert_subject :: "attribute list"
  cert_issuer :: "attribute list"
  cert_notBefore :: int
  cert_notAfter :: int
  cert_serialNumber :: jsstring
  cert_publicKey :: public_key
  cert_signatureAlgorithm :: unknown
  cert_sigAlg :: unknown
  cert_signatureAlgorithmOid :: unknown
  cert_signature :: jsstring
  cert_extensions :: "forge_extension list"

text \<open>
  What is thrown: an \<^verbatim>\<open>Error\<close> object with its message, or another value. The functions
  of the library that decode, encode and digest are parameters of the model.
  \<open>certificate_der\<close> is \<^verbatim>\<open>forge.asn1.toDer(forge.pki.certificateToAsn1(cert)).getBytes()\<close>,
  \<open>sha1_hex\<close> and \<open>sha256_hex\<close> are \<^verbatim>\<open>forge.md.sha1\<close> and \<^verbatim>\<open>forge.md.sha256\<close> with
  \<^verbatim>\<open>create().update(bytes).digest().toHex()\<close>.
\<close>

datatype thrown = ErrorObject jsstring | NotAnError

record forge =
  certificateFromPem :: "jsstring \<Rightarrow> thrown + forge_cert"
  certificate_der :: "forge_cert \<Rightarrow> jsstring"
  sha1_hex :: "jsstring \<Rightarrow> jsstring"
  sha256_hex :: "jsstring \<Rightarrow> jsstring"

text \<open>
  \<^verbatim>\<open>new Date()\<close> reads the system clock. The source's functions take no instant; the
  reading is part of the world a call runs in.
\<close>

record world =
  wall_clock :: int

text \<open>\<^verbatim>\<open>forge.util.bytesToHex\<close>: two lower-case hexadecimal digits for each byte.\<close>

definition bytesToHex :: "jsstring \<Rightarrow> jsstring" where
  "bytesToHex bytes =
     concat (map (\<lambda>b. (if b < 16 then js ''0'' else []) @ digits_radix 16 b) bytes)"

section \<open>The result\<close>

record distinguished_name =
  commonName :: "jsstring option"
  organization :: "jsstring option"
  organizationalUnit :: "jsstring option"
  country :: "jsstring option"
  state :: "jsstring option"
  locality :: "jsstring option"
  email :: "jsstring option"

record validity_info =
  notBefore :: int
  notAfter :: int
  isExpired :: bool
  isExpiringSoon :: bool

record public_key_info =
  algorithm :: jsstring
  keySize :: "nat option"
  modulus :: "jsstring option"
  exponent :: "jsstring option"

record signature_info =
  sig_algorithm :: jsstring
  sig_value :: jsstring

record extension_info =
  x_name :: jsstring
  x_value :: jsstring
  x_critical :: bool

record fingerprint_info =
  sha1 :: jsstring
  sha256 :: jsstring

record raw_data =
  binary :: jsstring
  hex :: jsstring
  binaryString :: jsstring

record basic_constraints =
  isCA :: bool
  pathLength :: "int option"
  rawData :: raw_data

record sct =
  sct_version :: jsstring
  sct_logId :: jsstring
  sct_timestamp :: int
  sct_signature :: jsstring

record certificate_transparency =
  scts :: "sct list"

record CertificateInfo =
  version :: int
  subject :: distinguished_name
  issuer :: distinguished_name
  validity :: validity_info
  serialNumber :: jsstring
  publicKey :: public_key_info
  signature :: signature_info
  extensions :: "extension_info list"
  fingerprint :: fingerprint_info
  keyUsage :: "jsstring list option"
  basicConstraints :: "basic_constraints option"
  extendedKeyUsage :: "jsstring list option"
  certificateTransparency :: "certificate_transparency option"

section \<open>Field extractors\<close>

text \<open>
  \<^verbatim>\<open>(cert.version || 2) + 1\<close>: an absent version and the number 0 are both falsy.
\<close>

definition display_version :: "int option \<Rightarrow> int" where
  "display_version v = (case v of None \<Rightarrow> 2 | Some n \<Rightarrow> if n = 0 then 2 else n) + 1"

definition empty_dn :: distinguished_name where
  "empty_dn = \<lparr>commonName = None, organization = None, organizationalUnit = None,
               country = None, state = None, locality = None, email = None\<rparr>"

text \<open>The body of the \<^verbatim>\<open>forEach\<close> over the attributes: the \<^verbatim>\<open>switch\<close> on the attribute's name.\<close>

definition set_dn_field :: "distinguished_name \<Rightarrow> attribute \<Rightarrow> distinguished_name" where
  "set_dn_field dn attr =
     (let v = (case attr_value attr of Multi vs \<Rightarrow> str_join (js '', '') vs | Single x \<Rightarrow> x) in
        if attr_name attr = Some (js ''commonName'') then dn\<lparr>commonName := Some v\<rparr>
        else if attr_name attr = Some (js ''organizationName'') then dn\<lparr>organization := Some v\<rparr>
        else if attr_name attr = Some (js ''organizationalUnitName'')
          then dn\<lparr>organizationalUnit := Some v\<rparr>
        else if attr_name attr = Some (js ''countryName'') then dn\<lparr>country := Some v\<rparr>
        else if attr_name attr = Some (js ''stateOrProvinceName'') then dn\<lparr>state := Some v\<rparr>
        else if attr_name attr = Some (js ''localityName'') then dn\<lparr>locality := Some v\<rparr>
        else if attr_name attr = Some (js ''emailAddress'') then dn\<lparr>email := Some v\<rparr>
        else dn)"

definition extract_dn :: "attribute list \<Rightarrow> distinguished_name" where
  "extract_dn attrs = foldl set_dn_field empty_dn attrs"

text \<open>
  The validity block: \<open>now\<close> is \<^verbatim>\<open>new Date()\<close>, \<open>thirtyDaysFromNow\<close> is
  \<^verbatim>\<open>new Date(now.getTime() + 30 * 24 * 60 * 60 * 1000)\<close>.
\<close>

definition extract_validity :: "world \<Rightarrow> forge_cert \<Rightarrow> validity_info" where
  "extract_validity w cert =
     (let now = wall_clock w;
          thirtyDaysFromNow = now + 30 * 24 * 60 * 60 * 1000
      in \<lparr>notBefore = cert_notBefore cert,
          notAfter = cert_notAfter cert,
          isExpired = (cert_notAfter cert < now),
          isExpiringSoon = (cert_notAfter cert < thirtyDaysFromNow \<and> cert_notAfter cert > now)\<rparr>)"

text \<open>\<^verbatim>\<open>extractPublicKeyAlgorithm(publicKey: unknown)\<close>; \<open>None\<close> is a null or undefined key.\<close>

definition extractPublicKeyAlgorithm :: "public_key option \<Rightarrow> jsstring" where
  "extractPublicKeyAlgorithm key =
     (case key of
        None \<Rightarrow> js ''Unknown''
      | Some pk \<Rightarrow>
          (case truthy_string (pk_algorithm pk) of
             Some a \<Rightarrow> a
           | None \<Rightarrow>
          (case truthy_string (pk_algorithmName pk) of
             Some a \<Rightarrow> a
           | None \<Rightarrow>
               if pk_n pk \<noteq> None \<and> pk_e pk \<noteq> None then js ''rsaEncryption''
               else if truthy (pk_curve pk) then js ''ecPublicKey''
               else if truthy (pk_y pk) \<and> truthy (pk_p pk) \<and> truthy (pk_q pk) \<and> truthy (pk_g pk)
                 then js ''dsaEncryption''
               else js ''Unknown'')))"

definition extract_publicKey :: "forge_cert \<Rightarrow> public_key_info" where
  "extract_publicKey cert =
     (let pk = cert_publicKey cert;
          alg = extractPublicKeyAlgorithm (Some pk)
      in case (pk_n pk, pk_e pk) of
           (Some n, Some e) \<Rightarrow>
             \<lparr>algorithm = alg,
              keySize = Some (bitLength n),
              modulus = Some (formatModulus (bigint_toString 16 n)),
              exponent = Some (formatExponent (bigint_toString 10 e))\<rparr>
         | _ \<Rightarrow> \<lparr>algorithm = alg, keySize = None, modulus = None, exponent = None\<rparr>)"

text \<open>
  \<^verbatim>\<open>extractSignatureAlgorithm(cert: unknown)\<close> reads five properties of its argument,
  each of type \<^verbatim>\<open>unknown\<close>.
\<close>

record signature_fields =
  f_signatureAlgorithm :: unknown
  f_sigAlg :: unknown
  f_signatureAlgorithmOid :: unknown
  f_signature :: unknown
  f_publicKey :: unknown

definition extractSignatureAlgorithm :: "signature_fields \<Rightarrow> jsstring" where
  "extractSignatureAlgorithm c =
     (case truthy_string (f_signatureAlgorithm c) of
        Some a \<Rightarrow> a
      | None \<Rightarrow>
     (case truthy_string (f_sigAlg c) of
        Some a \<Rightarrow> a
      | None \<Rightarrow>
     (case truthy_string (f_signatureAlgorithmOid c) of
        Some a \<Rightarrow> a
      | None \<Rightarrow>
          if truthy (f_signature c) \<and> truthy (f_publicKey c) then js ''sha256WithRSAEncryption''
          else js ''Unknown'')))"

text \<open>The decoded certificate as \<^verbatim>\<open>extractSignatureAlgorithm\<close> sees it; its key is an object.\<close>

definition signature_fields_of :: "forge_cert \<Rightarrow> signature_fields" where
  "signature_fields_of cert =
     \<lparr>f_signatureAlgorithm = cert_signatureAlgorithm cert,
      f_sigAlg = cert_sigAlg cert,
      f_signatureAlgorithmOid = cert_signatureAlgorithmOid cert,
      f_signature = Str (cert_signature cert),
      f_publicKey = Other True\<rparr>"

definition extract_signature :: "forge_cert \<Rightarrow> signature_info" where
  "extract_signature cert =
     \<lparr>sig_algorithm = extractSignatureAlgorithm (signature_fields_of cert),
      sig_value = bytesToHex (cert_signature cert)\<rparr>"

section \<open>Extensions\<close>

definition truthy_value :: "extension_value \<Rightarrow> bool" where
  "truthy_value v = (case v of NoValue \<Rightarrow> False | StrValue s \<Rightarrow> s \<noteq> [] | _ \<Rightarrow> True)"

text \<open>\<^verbatim>\<open>String(value)\<close>.\<close>

definition to_String :: "extension_value \<Rightarrow> jsstring" where
  "to_String v =
     (case v of
        NoValue \<Rightarrow> js ''undefined''
      | StrValue s \<Rightarrow> s
      | ArrValue xs \<Rightarrow> str_join (js '','') xs
      | ObjValue j \<Rightarrow> js ''[object Object]'')"

text \<open>The body of the \<^verbatim>\<open>forEach\<close> that fills \<^verbatim>\<open>extensions\<close>.\<close>

definition generic_extension :: "forge_extension \<Rightarrow> extension_info" where
  "generic_extension ext =
     \<lparr>x_name = str_or (ext_name ext) (js ''Unknown''),
      x_value =
        (if truthy_value (ext_value ext)
         then (case ext_value ext of
                 StrValue s \<Rightarrow> s
               | ArrValue xs \<Rightarrow> str_join (js '', '') xs
               | ObjValue j \<Rightarrow> j
               | NoValue \<Rightarrow> [])
         else []),
      x_critical = ext_critical ext\<rparr>"

text \<open>
  \<^verbatim>\<open>s.charCodeAt(i)\<close> is NaN out of range, and \<^verbatim>\<open>x & m\<close> takes NaN as 0.
\<close>

definition charCodeAt :: "jsstring \<Rightarrow> nat \<Rightarrow> js_number" where
  "charCodeAt s i = (if i < length s then Num (int (s ! i)) else NaN)"

definition js_bitand :: "js_number \<Rightarrow> int \<Rightarrow> int" where
  "js_bitand x m = (case x of NaN \<Rightarrow> 0 | Num v \<Rightarrow> v AND m)"

text \<open>The echoes of the raw bytes that the source builds for the diagnostic display.\<close>

definition hex_echo :: "jsstring \<Rightarrow> jsstring" where
  "hex_echo rawValue =
     str_join (js '':'')
       (map (\<lambda>ch. toUpperCase (padStart 2 48 (number_toString 16 (charCodeAt ch 0))))
          (array_from rawValue))"

definition binary_echo :: "jsstring \<Rightarrow> jsstring" where
  "binary_echo rawValue =
     str_join (js '' '')
       (map (\<lambda>ch. padStart 8 48 (number_toString 2 (charCodeAt ch 0))) (split_units rawValue))"

record key_usage_flags =
  digitalSignature :: bool
  nonRepudiation :: bool
  keyEncipherment :: bool
  dataEncipherment :: bool
  keyAgreement :: bool
  keyCertSign :: bool
  cRLSign :: bool
  encipherOnly :: bool
  decipherOnly :: bool

definition parseKeyUsageExtension :: "extension_value \<Rightarrow> key_usage_flags" where
  "parseKeyUsageExtension v =
     (let rawValue = to_String v in
        if length rawValue \<ge> 4 then
          (let bitString = charCodeAt rawValue 3 in
             \<lparr>digitalSignature = (js_bitand bitString 0x80 \<noteq> 0),
              nonRepudiation = (js_bitand bitString 0x40 \<noteq> 0),
              keyEncipherment = (js_bitand bitString 0x20 \<noteq> 0),
              dataEncipherment = (js_bitand bitString 0x10 \<noteq> 0),
              keyAgreement = (js_bitand bitString 0x08 \<noteq> 0),
              keyCertSign = (js_bitand bitString 0x04 \<noteq> 0),
              cRLSign = (js_bitand bitString 0x02 \<noteq> 0),
              encipherOnly = (js_bitand bitString 0x01 \<noteq> 0),
              decipherOnly = False\<rparr>)
        else
          \<lparr>digitalSignature = True,
           nonRepudiation = False,
           keyEncipherment = True,
           dataEncipherment = False,
           keyAgreement = False,
           keyCertSign = False,
           cRLSign = False,
           encipherOnly = False,
           decipherOnly = False\<rparr>)"

definition raw_echoes :: "jsstring \<Rightarrow> jsstring list" where
  "raw_echoes rawValue =
     [js ''Raw Binary: '' @ rawValue,
      js ''Hex: '' @ hex_echo rawValue,
      js ''Binary: '' @ binary_echo rawValue]"

text \<open>The key usage block: the list \<^verbatim>\<open>keyUsage\<close> before it is returned.\<close>

definition extract_keyUsage :: "forge_cert \<Rightarrow> jsstring list" where
  "extract_keyUsage cert =
     (case find (\<lambda>ext. ext_name ext = Some (js ''keyUsage'')) (cert_extensions cert) of
        None \<Rightarrow> []
      | Some ext \<Rightarrow>
          if truthy_value (ext_value ext) then
            (let keyUsageFlags = parseKeyUsageExtension (ext_value ext) in
               (if digitalSignature keyUsageFlags then [js ''Digital Signature''] else []) @
               (if nonRepudiation keyUsageFlags then [js ''Non Repudiation''] else []) @
               (if keyEncipherment keyUsageFlags then [js ''Key Encipherment''] else []) @
               (if dataEncipherment keyUsageFlags then [js ''Data Encipherment''] else []) @
               (if keyAgreement keyUsageFlags then [js ''Key Agreement''] else []) @
               (if keyCertSign keyUsageFlags then [js ''Key Cert Sign''] else []) @
               (if cRLSign keyUsageFlags then [js ''CRL Sign''] else []) @
               (if encipherOnly keyUsageFlags then [js ''Encipher Only''] else []) @
               (if decipherOnly keyUsageFlags then [js ''Decipher Only''] else []) @
               raw_echoes (to_String (ext_value ext)))
          else [])"

definition parseBasicConstraintsExtension :: "extension_value \<Rightarrow> basic_constraints" where
  "parseBasicConstraintsExtension v =
     (let rawValue = to_String v;
          isCA = (if length rawValue \<ge> 2
                  then (if charCodeAt rawValue 1 = Num 0 then False else False)
                  else False);
          pathLength = None
      in
        \<lparr>isCA = isCA,
         pathLength = pathLength,
         rawData = \<lparr>binary = rawValue, hex = hex_echo rawValue,
                     binaryString = binary_echo rawValue\<rparr>\<rparr>)"

definition extract_basicConstraints :: "forge_cert \<Rightarrow> basic_constraints option" where
  "extract_basicConstraints cert =
     (case find (\<lambda>ext. ext_name ext = Some (js ''basicConstraints'')) (cert_extensions cert) of
        None \<Rightarrow> None
      | Some ext \<Rightarrow> Some (parseBasicConstraintsExtension (ext_value ext)))"

definition parseExtendedKeyUsageExtension :: "jsstring list" where
  "parseExtendedKeyUsageExtension =
     [js ''TLS Web Server Authentication'', js ''TLS Web Client Authentication'']"

definition extract_extendedKeyUsage :: "forge_cert \<Rightarrow> jsstring list" where
  "extract_extendedKeyUsage cert =
     (case find (\<lambda>ext. ext_name ext = Some (js ''extKeyUsage'')) (cert_extensions cert) of
        None \<Rightarrow> []
      | Some ext \<Rightarrow>
          if truthy_value (ext_value ext)
          then parseExtendedKeyUsageExtension @ raw_echoes (to_String (ext_value ext))
          else [])"

text \<open>
  \<^verbatim>\<open>parseCertificateTransparencySCTs(ctExtension: unknown)\<close>. The guard
  \<^verbatim>\<open>ctExtension && typeof ctExtension === 'object' && 'value' in ctExtension\<close> holds for an
  extension object of the decoder, which has the property \<^verbatim>\<open>value\<close>; \<open>None\<close> is an
  argument that is no such object. Nothing inside the \<^verbatim>\<open>try\<close> block throws. The
  timestamps are the time values of the three date literals of the source.
\<close>

definition parseCertificateTransparencySCTs :: "forge_extension option \<Rightarrow> sct list" where
  "parseCertificateTransparencySCTs ctExtension =
     (case ctExtension of
        None \<Rightarrow> []
      | Some ext \<Rightarrow>
          [\<lparr>sct_version = js ''v1 (0x0)'',
            sct_logId = js ''A2:E3:0A:E4:45:EF:BD:AD:9B:7E:38:ED:47:67:77:53:D7:82:5B:84:94:D7:2B:5E:1B:2C:C4:B9:50:A4:47:E7'',
            sct_timestamp = 1706075169505,
            sct_signature = js ''ecdsa-with-SHA256\<newline>30:45:02:20:11:44:E0:29:DD:CF:CC:5B:CE:64:7F:F9:39:F7:63:23:20:05:CF:BD:3C:BB:8C:D4:52:CC:E4:55:18:9A:B0:FA:02:21:00:BD:A2:3D:6A:A4:79:7B:10:4A:B0:73:8C:52:71:0A:8F:54:D9:4B:82:B1:0A:AD:0A:70:98:F0:C6:67:FE:9E:7F''\<rparr>,
           \<lparr>sct_version = js ''v1 (0x0)'',
            sct_logId = js ''E6:D2:31:63:40:77:8C:C1:10:41:06:D7:71:B9:CE:C1:D2:40:F6:96:84:86:FB:BA:87:32:1D:FD:1E:37:8E:50'',
            sct_timestamp = 1706075169503,
            sct_signature = js ''ecdsa-with-SHA256\<newline>30:45:02:21:00:99:5C:D5:D1:0F:69:FB:51:15:AE:93:BD:E5:4A:44:E5:D1:C3:E0:E7:80:F8:04:85:3B:F5:15:17:B7:E2:3B:26:02:20:7B:52:D6:EE:5E:AB:7A:F0:B2:E5:F8:85:84:4D:A5:F9:EF:F7:04:20:4C:E9:BD:13:94:C7:50:F1:1C:1E:A8:9B''\<rparr>,
           \<lparr>sct_version = js ''v1 (0x0)'',
            sct_logId = js ''4E:75:A3:27:5C:9A:10:C3:38:5B:6C:D4:DF:3F:52:EB:1D:F0:E0:8E:1B:8D:69:C0:B1:FA:64:B1:62:9A:39:DF'',
            sct_timestamp = 1706075169453,
            sct_signature = js ''ecdsa-with-SHA256\<newline>30:45:02:20:56:C3:6A:8F:CF:B2:2A:B3:F4:DF:F4:87:44:DB:99:6F:57:BD:44:D5:59:3C:AE:B9:EC:77:DA:E0:1E:62:0D:89:02:21:00:BF:C6:89:A9:45:EE:25:BE:7F:33:4D:EE:78:44:1E:F8:C0:2E:69:8F:64:A4:0E:B5:6A:07:4B:E2:56:E3:7F:16''\<rparr>])"

text \<open>
  The predicate of the \<^verbatim>\<open>find\<close> that looks for the certificate transparency extension.
  \<^verbatim>\<open>ext.name?.toLowerCase().includes(...)\<close> is undefined, so falsy, for an absent name.
\<close>

definition is_ct_extension :: "forge_extension \<Rightarrow> bool" where
  "is_ct_extension ext =
     (ext_name ext = Some (js ''ctPrecertificateSCTs'') \<or>
      ext_name ext = Some (js ''signedCertificateTimestampList'') \<or>
      ext_name ext = Some (js ''1.3.6.1.4.1.11129.2.4.2'') \<or>
      ext_name ext = Some (js ''1.3.6.1.4.1.11129.2.4.5'') \<or>
      (case ext_name ext of None \<Rightarrow> False | Some n \<Rightarrow> str_includes (toLowerCase n) (js ''ct'')) \<or>
      (case ext_name ext of None \<Rightarrow> False | Some n \<Rightarrow> str_includes (toLowerCase n) (js ''sct'')) \<or>
      (case ext_name ext of None \<Rightarrow> False
       | Some n \<Rightarrow> str_includes (toLowerCase n) (js ''transparency'')))"

definition extract_certificateTransparency :: "forge_cert \<Rightarrow> certificate_transparency option" where
  "extract_certificateTransparency cert =
     (case find is_ct_extension (cert_extensions cert) of
        None \<Rightarrow> None
      | Some ctExtension \<Rightarrow> Some \<lparr>scts = parseCertificateTransparencySCTs (Some ctExtension)\<rparr>)"

section \<open>The parser\<close>

text \<open>
  \<^verbatim>\<open>parseCertificateWithForge(certText)\<close>. The source's only parameter is the text; the
  library and the world (the clock that \<^verbatim>\<open>new Date()\<close> reads) are what the call runs in.
  Whatever the \<^verbatim>\<open>try\<close> block throws is thrown again as an \<^verbatim>\<open>Error\<close> whose message
  starts with \<^verbatim>\<open>Failed to parse certificate: \<close>; the result is \<open>Inl\<close> of that message.
  \<open>clean_text\<close> is the cleaning of the text before it is decoded, and \<open>build_info\<close> is
  the rest of the \<^verbatim>\<open>try\<close> block: the object that is returned for a decoded certificate.
\<close>

definition clean_text :: "jsstring \<Rightarrow> jsstring" where
  "clean_text certText =
     str_trim
       (str_replaceAll END_CERTIFICATE END_CERTIFICATE
          (str_replaceAll BEGIN_CERTIFICATE BEGIN_CERTIFICATE certText))"

definition build_info :: "forge \<Rightarrow> world \<Rightarrow> forge_cert \<Rightarrow> CertificateInfo" where
  "build_info lib w cert =
     \<lparr>version = display_version (cert_version cert),
      subject = extract_dn (cert_subject cert),
      issuer = extract_dn (cert_issuer cert),
      validity = extract_validity w cert,
      serialNumber = formatSerialNumber (cert_serialNumber cert),
      publicKey = extract_publicKey cert,
      signature = extract_signature cert,
      extensions = map generic_extension (cert_extensions cert),
      fingerprint =
        \<lparr>sha1 = sha1_hex lib (certificate_der lib cert),
         sha256 = sha256_hex lib (certificate_der lib cert)\<rparr>,
      keyUsage = (let ku = extract_keyUsage cert in if length ku > 0 then Some ku else None),
      basicConstraints = extract_basicConstraints cert,
      extendedKeyUsage =
        (let eku = extract_extendedKeyUsage cert in if length eku > 0 then Some eku else None),
      certificateTransparency = extract_certificateTransparency cert\<rparr>"

definition parseCertificateWithForge :: "forge \<Rightarrow> world \<Rightarrow> jsstring \<Rightarrow> jsstring + CertificateInfo" where
  "parseCertificateWithForge lib w certText =
     (let cleanCertText = clean_text certText in
        case certificateFromPem lib cleanCertText of
          Inl err \<Rightarrow>
            Inl (js ''Failed to parse certificate: '' @
                 (case err of ErrorObject message \<Rightarrow> message | NotAnError \<Rightarrow> js ''Unknown error''))
        | Inr cert \<Rightarrow> Inr (build_info lib w cert))"

text \<open>\<^verbatim>\<open>parseCertificate(certText)\<close>, the exported function.\<close>

definition parseCertificate :: "forge \<Rightarrow> world \<Rightarrow> jsstring \<Rightarrow> jsstring + CertificateInfo" where
  "parseCertificate lib w certText = parseCertificateWithForge lib w certText"

section \<open>Grouping, as the specification words it\<close>

text \<open>
  The specification describes the serial number and the modulus by groups: a separator
  every two characters, a line every 15 pairs. \<open>chunks n xs\<close> cuts \<open>xs\<close> into groups of
  \<open>n\<close> elements from the left, the last one possibly shorter. The formatters of the
  source are compared with it.
\<close>

function chunks :: "nat \<Rightarrow> 'a list \<Rightarrow> 'a list list" where
  "chunks n xs = (if xs = [] \<or> n = 0 then [] else take n xs # chunks n (drop n xs))"
  by pat_completeness auto
termination
  by (relation "measure (\<lambda>(n, xs). length xs)") auto

declare chunks.simps [simp del]

definition isHexDigit :: "code_unit \<Rightarrow> bool" where
  "isHexDigit c = (c \<in> set (js ''0123456789abcdefABCDEF''))"

section \<open>A sample certificate\<close>

text \<open>
  A small decoded certificate and a stand-in for the library, on which the theorems
  below are instantiated: the stand-in decodes one PEM text to the sample certificate
  and rejects every other text, and its encoder and digests are stand-ins too. The
  sample has a key usage extension of three bytes and an SCT list extension whose list
  is empty (the bytes \<open>04 02 00 00\<close>).
\<close>

definition sample_sct_extension :: forge_extension where
  "sample_sct_extension =
     \<lparr>ext_name = Some (js ''signedCertificateTimestampList''),
      ext_value = StrValue [0x04, 0x02, 0x00, 0x00],
      ext_critical = False\<rparr>"

definition sample_cert :: forge_cert where
  "sample_cert =
     \<lparr>cert_version = Some 2,
      cert_subject =
        [\<lparr>attr_name = Some (js ''commonName''), attr_value = Single (js ''example.test'')\<rparr>,
         \<lparr>attr_name = Some (js ''organizationName''), attr_value = Multi [js ''A'', js ''B'']\<rparr>],
      cert_issuer =
        [\<lparr>attr_name = Some (js ''commonName''), attr_value = Single (js ''Test CA'')\<rparr>],
      cert_notBefore = 1700000000000,
      cert_notAfter = 1800000000000,
      cert_serialNumber = js ''1a2b3c'',
      cert_publicKey =
        \<lparr>pk_algorithm = Undefined, pk_algorithmName = Undefined,
         pk_n = Some 12648430, pk_e = Some 65537,
         pk_curve = Undefined, pk_y = Undefined, pk_p = Undefined,
         pk_q = Undefined, pk_g = Undefined\<rparr>,
      cert_signatureAlgorithm = Undefined,
      cert_sigAlg = Undefined,
      cert_signatureAlgorithmOid = Undefined,
      cert_signature = [0x30, 0x0A],
      cert_extensions =
        [\<lparr>ext_name = Some (js ''keyUsage''), ext_value = StrValue [0x03, 0x02, 0x05],
          ext_critical = True\<rparr>,
         sample_sct_extension]\<rparr>"

definition sample_pem :: jsstring where
  "sample_pem = js ''-----BEGIN CERTIFICATE-----\<newline>MIIB\<newline>-----END CERTIFICATE-----''"

definition sample_forge :: forge where
  "sample_forge =
     \<lparr>certificateFromPem =
        (\<lambda>pem. if pem = sample_pem then Inr sample_cert
               else Inl (ErrorObject (js ''Invalid PEM formatted message.''))),
      certificate_der = (\<lambda>cert. [0x30, 0x00]),
      sha1_hex = (\<lambda>bytes. js ''sha1-of-'' @ bytesToHex bytes),
      sha256_hex = (\<lambda>bytes. js ''sha256-of-'' @ bytesToHex bytes)\<rparr>"

section \<open>Evaluation on literals\<close>

text \<open>
  The recursive equations of the loops are unfolded only on literal arguments.
\<close>

lemma digits_radix_0: "digits_radix b 0 = [digit_char 0]"
  by (subst digits_radix.simps) auto

lemma digits_radix_1: "digits_radix b 1 = [digit_char 1]"
  by (subst digits_radix.simps) auto

lemma digits_radix_Suc_0: "digits_radix b (Suc 0) = [digit_char (Suc 0)]"
  by (subst digits_radix.simps) auto

lemma digits_radix_numeral:
  "digits_radix b (numeral k) =
     (if numeral k < b \<or> b < 2 then [digit_char (numeral k)]
      else digits_radix b (numeral k div b) @ [digit_char (numeral k mod b)])"
  by (rule digits_radix.simps)

lemma modulus_lines_eval:
  "modulus_lines (p # ps) i acc =
     (if i < length (p # ps)
      then modulus_lines (p # ps) (i + 15) (acc @ [str_join (js '':'') (take 15 (drop i (p # ps)))])
      else acc)"
  "modulus_lines [] i acc = acc"
  by (subst modulus_lines.simps, simp)+

lemma str_replaceAll_eval:
  "str_replaceAll pat rep [] = []"
  "str_replaceAll pat rep (c # cs) =
     (if pat = [] then c # cs
      else if str_startsWith (c # cs) pat
        then rep @ str_replaceAll pat rep (drop (length pat) (c # cs))
      else c # str_replaceAll pat rep cs)"
  by (subst str_replaceAll.simps, simp)+

lemma chunks_eval:
  "chunks n [] = []"
  "chunks n (x # xs) = (if n = 0 then [] else take n (x # xs) # chunks n (drop n (x # xs)))"
  by (subst chunks.simps, simp)+

lemma replicate_eval: "replicate (numeral k) c = c # replicate (pred_numeral k) c"
  by (simp add: numeral_eq_Suc)

lemmas js_string_eval =
  js_def isWhiteSpace_def isLineTerminator_def str_trim_def str_startsWith_def
  str_endsWith_def str_or_def str_match_pairs_def toUpperCase_def toLowerCase_def
  padStart_def split_units_def digit_char_def digits_radix_0 digits_radix_1 digits_radix_Suc_0
  digits_radix_numeral bigint_toString_def bitLength_def number_toString_def isDigit_def
  digits_value_def parseInt10_def charCodeAt_def js_bitand_def bytesToHex_def Let_def

section \<open>Properties of the format validator\<close>

lemma str_startsWith_prefix: "str_startsWith s p \<longleftrightarrow> prefix p s"
  unfolding str_startsWith_def
  by (metis append_eq_conv_conj prefix_def)

lemma str_endsWith_suffix: "str_endsWith s p \<longleftrightarrow> suffix p s"
proof
  assume "str_endsWith s p"
  then have "drop (length s - length p) s = p"
    by (simp add: str_endsWith_def)
  then show "suffix p s"
    by (metis suffix_drop)
next
  assume "suffix p s"
  then obtain a where "s = a @ p"
    by (auto simp: suffix_def)
  then show "str_endsWith s p"
    by (simp add: str_endsWith_def)
qed

lemma str_includes_append: "str_includes (a @ p @ b) p"
proof (induction a)
  case Nil
  have "str_startsWith (p @ b) p"
    by (simp add: str_startsWith_def)
  then show ?case
    by (cases "p @ b") simp_all
next
  case (Cons c a)
  then show ?case by simp
qed

lemma str_startsWith_includes: "str_startsWith s p \<Longrightarrow> str_includes s p"
proof -
  assume "str_startsWith s p"
  then obtain b where "s = [] @ p @ b"
    by (auto simp: str_startsWith_prefix prefix_def)
  then show ?thesis
    by (metis str_includes_append)
qed

lemma str_endsWith_includes: "str_endsWith s p \<Longrightarrow> str_includes s p"
proof -
  assume "str_endsWith s p"
  then obtain a where "s = a @ p @ []"
    by (auto simp: str_endsWith_suffix suffix_def)
  then show ?thesis
    by (metis str_includes_append)
qed

text \<open>
  Trimming removes white space at both ends and nothing else, and what is left neither
  starts nor ends with white space.
\<close>

lemma str_trim_decomposition:
  "\<exists>a b. s = a @ str_trim s @ b \<and> list_all isWhiteSpace a \<and> list_all isWhiteSpace b"
proof -
  let ?t = "dropWhile isWhiteSpace s"
  let ?a = "takeWhile isWhiteSpace s"
  let ?b = "rev (takeWhile isWhiteSpace (rev ?t))"
  have t: "?t = str_trim s @ ?b"
    by (metis rev_append rev_rev_ident str_trim_def takeWhile_dropWhile_id)
  have "s = ?a @ ?t"
    by simp
  then have "s = ?a @ str_trim s @ ?b"
    using t by simp
  moreover have "list_all isWhiteSpace ?a"
    by (simp add: list_all_iff) (meson set_takeWhileD)
  moreover have "list_all isWhiteSpace ?b"
    by (simp add: list_all_iff) (meson set_takeWhileD)
  ultimately show ?thesis by blast
qed

lemma str_trim_ends:
  assumes "str_trim s \<noteq> []"
  shows "\<not> isWhiteSpace (hd (str_trim s)) \<and> \<not> isWhiteSpace (last (str_trim s))"
proof -
  let ?t = "dropWhile isWhiteSpace s"
  let ?d = "dropWhile isWhiteSpace (rev ?t)"
  have d: "?d \<noteq> []"
    using assms by (simp add: str_trim_def)
  then have "\<not> isWhiteSpace (hd ?d)"
    by (rule hd_dropWhile)
  then have l: "\<not> isWhiteSpace (last (str_trim s))"
    using d by (simp add: str_trim_def last_rev)
  have "?t = str_trim s @ rev (takeWhile isWhiteSpace (rev ?t))"
    by (metis rev_append rev_rev_ident str_trim_def takeWhile_dropWhile_id)
  then have "hd ?t = hd (str_trim s)" and "?t \<noteq> []"
    using assms by (metis hd_append2, metis append_is_Nil_conv)
  then have "\<not> isWhiteSpace (hd (str_trim s))"
    using hd_dropWhile [of isWhiteSpace s] by simp
  then show ?thesis using l by simp
qed

text \<open>
  C5. For every input string, the format validator trims white space and returns true
  if and only if the trimmed text starts with the literal BEGIN marker and ends with the
  literal END marker (the two \<^verbatim>\<open>includes\<close> tests of the source follow from these);
  a text whose trimmed form does not end with the END marker fails validation.
\<close>

theorem validateCertificateFormat_iff:
  "validateCertificateFormat certText \<longleftrightarrow>
     prefix (js ''-----BEGIN CERTIFICATE-----'') (str_trim certText) \<and>
     suffix (js ''-----END CERTIFICATE-----'') (str_trim certText)"
proof -
  let ?t = "str_trim certText"
  have "str_startsWith ?t BEGIN_CERTIFICATE \<Longrightarrow> str_includes ?t BEGIN_CERTIFICATE"
    by (rule str_startsWith_includes)
  moreover have "str_endsWith ?t END_CERTIFICATE \<Longrightarrow> str_includes ?t END_CERTIFICATE"
    by (rule str_endsWith_includes)
  ultimately have "validateCertificateFormat certText \<longleftrightarrow>
      str_startsWith ?t BEGIN_CERTIFICATE \<and> str_endsWith ?t END_CERTIFICATE"
    unfolding validateCertificateFormat_def Let_def by blast
  then show ?thesis
    by (simp add: str_startsWith_prefix str_endsWith_suffix
        BEGIN_CERTIFICATE_def END_CERTIFICATE_def)
qed

theorem validateCertificateFormat_iff_witness:
  "validateCertificateFormat (js '' \<newline>'' @ sample_pem @ js ''\<newline> '') \<and>
   \<not> validateCertificateFormat (js ''-----BEGIN CERTIFICATE-----\<newline>MIIB\<newline>'') \<and>
   \<not> validateCertificateFormat (js ''-----BEGIN CERTIFICATE-----\<newline>MIIB\<newline>-----END CERTIFICATE-----\<newline>x'')"
proof -
  have a: "str_trim (js '' \<newline>'' @ sample_pem @ js ''\<newline> '') = sample_pem"
    by (simp add: sample_pem_def js_string_eval)
  have b: "prefix (js ''-----BEGIN CERTIFICATE-----'') sample_pem"
    by (simp add: sample_pem_def js_def)
  have c: "suffix (js ''-----END CERTIFICATE-----'') sample_pem"
    by (simp add: sample_pem_def js_def suffix_to_prefix)
  have d: "\<not> suffix (js ''-----END CERTIFICATE-----'')
      (str_trim (js ''-----BEGIN CERTIFICATE-----\<newline>MIIB\<newline>''))"
    by (simp add: js_string_eval suffix_to_prefix)
  have e: "\<not> suffix (js ''-----END CERTIFICATE-----'')
      (str_trim (js ''-----BEGIN CERTIFICATE-----\<newline>MIIB\<newline>-----END CERTIFICATE-----\<newline>x''))"
    by (simp add: js_string_eval suffix_to_prefix)
  show ?thesis
    using a b c d e
      validateCertificateFormat_iff [of "js '' \<newline>'' @ sample_pem @ js ''\<newline> ''"]
      validateCertificateFormat_iff [of "js ''-----BEGIN CERTIFICATE-----\<newline>MIIB\<newline>''"]
      validateCertificateFormat_iff [of "js ''-----BEGIN CERTIFICATE-----\<newline>MIIB\<newline>-----END CERTIFICATE-----\<newline>x''"]
    by metis
qed

section \<open>Properties of the string helpers and of the grouping\<close>

lemma str_replaceAll_id: "rep = pat \<Longrightarrow> str_replaceAll pat rep s = s"
proof (induction pat rep s rule: str_replaceAll.induct)
  case (1 pat rep s)
  show ?case
  proof (cases "s = [] \<or> pat = []")
    case True
    then show ?thesis by (subst str_replaceAll.simps) simp
  next
    case False
    show ?thesis
    proof (cases "str_startsWith s pat")
      case True
      have "pat @ drop (length pat) s = s"
        using True by (metis append_take_drop_id str_startsWith_def)
      moreover have "str_replaceAll pat rep (drop (length pat) s) = drop (length pat) s"
        using 1 False True by simp
      ultimately show ?thesis
        using False True 1(3) by (subst str_replaceAll.simps) simp
    next
      case no: False
      have "hd s # tl s = s" using False by simp
      moreover have "str_replaceAll pat rep (tl s) = tl s"
        using 1 False no by simp
      ultimately show ?thesis
        using False no by (subst str_replaceAll.simps) simp
    qed
  qed
qed

lemma match_pairs_chunks:
  "\<forall>c \<in> set s. \<not> isLineTerminator c \<Longrightarrow> match_pairs s = chunks 2 s"
proof (induction s rule: match_pairs.induct)
  case 1
  show ?case by (simp add: chunks_eval)
next
  case (2 a)
  then show ?case by (simp add: chunks_eval)
next
  case (3 a b cs)
  then show ?case by (simp add: chunks_eval)
qed

lemma concat_chunks: "concat (chunks n xs) = (if n = 0 then [] else xs)"
proof (induction n xs rule: chunks.induct)
  case (1 n xs)
  show ?case
  proof (cases "xs = [] \<or> n = 0")
    case True
    then show ?thesis by (subst chunks.simps) auto
  next
    case False
    then have "concat (chunks n (drop n xs)) = drop n xs"
      using 1 by simp
    then show ?thesis
      using False by (subst chunks.simps) simp
  qed
qed

lemma chunks_Nil_iff: "chunks n xs = [] \<longleftrightarrow> xs = [] \<or> n = 0"
  by (subst chunks.simps) simp

lemma chunks_nonempty: "c \<in> set (chunks n xs) \<Longrightarrow> c \<noteq> []"
proof (induction n xs rule: chunks.induct)
  case (1 n xs)
  show ?case
  proof (cases "xs = [] \<or> n = 0")
    case True
    then have "chunks n xs = []" by (simp add: chunks_Nil_iff)
    then show ?thesis using 1(2) by simp
  next
    case False
    then have "chunks n xs = take n xs # chunks n (drop n xs)"
      by (subst chunks.simps) simp
    then have "c = take n xs \<or> c \<in> set (chunks n (drop n xs))"
      using 1(2) by simp
    then show ?thesis
      using 1(1) False by auto
  qed
qed

lemma chunks_length: "c \<in> set (chunks n xs) \<Longrightarrow> length c \<le> n"
proof (induction n xs rule: chunks.induct)
  case (1 n xs)
  show ?case
  proof (cases "xs = [] \<or> n = 0")
    case True
    then have "chunks n xs = []" by (simp add: chunks_Nil_iff)
    then show ?thesis using 1(2) by simp
  next
    case False
    then have "chunks n xs = take n xs # chunks n (drop n xs)"
      by (subst chunks.simps) simp
    then have "c = take n xs \<or> c \<in> set (chunks n (drop n xs))"
      using 1(2) by simp
    then show ?thesis
      using 1(1) False by auto
  qed
qed

lemma chunks_subset: "c \<in> set (chunks n xs) \<Longrightarrow> set c \<subseteq> set xs"
proof (induction n xs rule: chunks.induct)
  case (1 n xs)
  show ?case
  proof (cases "xs = [] \<or> n = 0")
    case True
    then have "chunks n xs = []" by (simp add: chunks_Nil_iff)
    then show ?thesis using 1(2) by simp
  next
    case False
    then have "chunks n xs = take n xs # chunks n (drop n xs)"
      by (subst chunks.simps) simp
    then have "c = take n xs \<or> c \<in> set (chunks n (drop n xs))"
      using 1(2) by simp
    then show ?thesis
      using 1(1) False by (meson in_set_dropD in_set_takeD subsetD subsetI)
  qed
qed

lemma match_pairs_nonempty: "c \<in> set (match_pairs s) \<Longrightarrow> c \<noteq> []"
  by (induction s rule: match_pairs.induct) (auto split: if_splits)

lemma str_join_nonempty:
  "xs \<noteq> [] \<Longrightarrow> \<forall>x \<in> set xs. x \<noteq> [] \<Longrightarrow> str_join sep xs \<noteq> []"
  by (induction sep xs rule: str_join.induct) auto

lemma filter_str_join:
  "filter P sep = [] \<Longrightarrow> filter P (str_join sep xs) = concat (map (filter P) xs)"
  by (induction sep xs rule: str_join.induct) auto

lemma str_split_no_sep: "c \<notin> set x \<Longrightarrow> str_split c x = [x]"
  by (induction x) auto

lemma str_split_append:
  "c \<notin> set x \<Longrightarrow> str_split c (x @ c # rest) = x # str_split c rest"
  by (induction x) auto

lemma str_split_join:
  "xs \<noteq> [] \<Longrightarrow> \<forall>x \<in> set xs. c \<notin> set x \<Longrightarrow> str_split c (str_join [c] xs) = xs"
proof (induction "[c]" xs rule: str_join.induct)
  case 1
  then show ?case by simp
next
  case (2 x)
  then show ?case by (simp add: str_split_no_sep)
next
  case (3 x y ys)
  then show ?case by (simp add: str_split_append)
qed

lemma modulus_lines_chunks:
  "modulus_lines parts i acc = acc @ map (str_join (js '':'')) (chunks 15 (drop i parts))"
proof (induction parts i acc rule: modulus_lines.induct)
  case (1 parts i lines)
  show ?case
  proof (cases "i < length parts")
    case True
    then have "chunks 15 (drop i parts) =
        take 15 (drop i parts) # chunks 15 (drop (i + 15) parts)"
      by (subst chunks.simps) (simp add: add.commute)
    then show ?thesis
      using 1 True by (subst modulus_lines.simps) simp
  next
    case False
    then have "chunks 15 (drop i parts) = []"
      by (simp add: chunks_Nil_iff)
    then show ?thesis
      using False by (subst modulus_lines.simps) simp
  qed
qed

lemma formatSerialNumber_cases:
  "formatSerialNumber serial =
     (if match_pairs (filter (\<lambda>c. c \<noteq> 58) serial) = [] then serial
      else str_join (js '':'') (match_pairs (filter (\<lambda>c. c \<noteq> 58) serial)))"
proof (cases "match_pairs (filter (\<lambda>c. c \<noteq> 58) serial)")
  case Nil
  then show ?thesis
    by (simp add: formatSerialNumber_def str_match_pairs_def str_or_def)
next
  case (Cons m ms)
  have "\<forall>x \<in> set (match_pairs (filter (\<lambda>c. c \<noteq> 58) serial)). x \<noteq> []"
    using match_pairs_nonempty by blast
  then have "str_join (js '':'') (match_pairs (filter (\<lambda>c. c \<noteq> 58) serial)) \<noteq> []"
    using Cons by (intro str_join_nonempty) simp_all
  then show ?thesis
    using Cons by (simp add: formatSerialNumber_def str_match_pairs_def str_or_def)
qed

lemma isHexDigit_not_terminator: "isHexDigit c \<or> c = 58 \<Longrightarrow> \<not> isLineTerminator c"
  by (auto simp: isHexDigit_def isLineTerminator_def js_def)

lemma formatSerialNumber_no_terminator:
  assumes "\<forall>c \<in> set serial. \<not> isLineTerminator c"
  shows "formatSerialNumber serial =
           (if filter (\<lambda>c. c \<noteq> 58) serial = [] then serial
            else str_join (js '':'') (chunks 2 (filter (\<lambda>c. c \<noteq> 58) serial)))"
proof -
  have "match_pairs (filter (\<lambda>c. c \<noteq> 58) serial) = chunks 2 (filter (\<lambda>c. c \<noteq> 58) serial)"
    using assms by (intro match_pairs_chunks) simp
  then show ?thesis
    by (simp add: formatSerialNumber_cases chunks_Nil_iff)
qed

lemma clean_joined_chunks:
  "58 \<notin> set t \<Longrightarrow> filter (\<lambda>c. c \<noteq> 58) (str_join (js '':'') (chunks 2 t)) = t"
proof -
  assume a: "58 \<notin> set t"
  have "filter (\<lambda>c. c \<noteq> 58) (str_join (js '':'') (chunks 2 t))
      = concat (map (filter (\<lambda>c. c \<noteq> 58)) (chunks 2 t))"
    by (rule filter_str_join) (simp add: js_def)
  also have "map (filter (\<lambda>c. c \<noteq> 58)) (chunks 2 t) = chunks 2 t"
  proof (rule map_idI)
    fix x assume "x \<in> set (chunks 2 t)"
    then have "58 \<notin> set x" using a chunks_subset by fastforce
    then show "filter (\<lambda>c. c \<noteq> 58) x = x" by (auto simp: filter_id_conv)
  qed
  finally show ?thesis by (simp add: concat_chunks)
qed

lemma formatSerialNumber_idem:
  assumes "\<forall>c \<in> set serial. \<not> isLineTerminator c"
  shows "formatSerialNumber (formatSerialNumber serial) = formatSerialNumber serial"
proof (cases "filter (\<lambda>c. c \<noteq> 58) serial = []")
  case True
  then show ?thesis using assms by (simp add: formatSerialNumber_no_terminator)
next
  case False
  let ?t = "filter (\<lambda>c. c \<noteq> 58) serial"
  let ?r = "str_join (js '':'') (chunks 2 ?t)"
  have r: "formatSerialNumber serial = ?r"
    using assms False by (simp add: formatSerialNumber_no_terminator)
  have clean: "filter (\<lambda>c. c \<noteq> 58) ?r = ?t"
    by (rule clean_joined_chunks) simp
  have "match_pairs ?t = chunks 2 ?t"
    using assms by (intro match_pairs_chunks) simp
  then have "formatSerialNumber ?r = ?r"
    using False by (simp add: formatSerialNumber_cases clean chunks_Nil_iff)
  then show ?thesis by (simp add: r)
qed

section \<open>Properties of the number rendering and of the modulus formatter\<close>

lemma digits_radix_digits:
  "2 \<le> b \<Longrightarrow> c \<in> set (digits_radix b n) \<Longrightarrow> \<exists>d<b. c = digit_char d"
proof (induction b n rule: digits_radix.induct)
  case (1 b n)
  show ?case
  proof (cases "n < b \<or> b < 2")
    case True
    then have "digits_radix b n = [digit_char n]"
      by (subst digits_radix.simps) simp
    then show ?thesis using 1(2,3) True by auto
  next
    case False
    then have "digits_radix b n = digits_radix b (n div b) @ [digit_char (n mod b)]"
      by (subst digits_radix.simps) simp
    then have "c \<in> set (digits_radix b (n div b)) \<or> c = digit_char (n mod b)"
      using 1(3) by auto
    then show ?thesis
    proof
      assume "c \<in> set (digits_radix b (n div b))"
      then show ?thesis using 1(1) False 1(2) by simp
    next
      assume "c = digit_char (n mod b)"
      moreover have "n mod b < b" using 1(2) by simp
      ultimately show ?thesis by blast
    qed
  qed
qed

lemma digits_radix_not_Nil: "digits_radix b n \<noteq> []"
  by (subst digits_radix.simps) simp

lemma digits_value_snoc: "digits_value (ds @ [d]) = 10 * digits_value ds + (d - 48)"
  by (simp add: digits_value_def)

lemma digits_value_radix: "digits_value (digits_radix 10 n) = n"
proof (induction "10::nat" n rule: digits_radix.induct)
  case (1 n)
  show ?case
  proof (cases "n < 10")
    case True
    then have "digits_radix 10 n = [digit_char n]"
      by (subst digits_radix.simps) simp
    then show ?thesis using True by (simp add: digits_value_def digit_char_def)
  next
    case False
    then have eq: "digits_radix 10 n = digits_radix 10 (n div 10) @ [digit_char (n mod 10)]"
      by (subst digits_radix.simps) simp
    have "digits_value (digits_radix 10 (n div 10)) = n div 10"
      using 1 False by simp
    then show ?thesis
      by (simp add: eq digits_value_snoc digit_char_def)
  qed
qed

lemma decimal_digits: "c \<in> set (digits_radix 10 n) \<Longrightarrow> isDigit c"
proof -
  assume "c \<in> set (digits_radix 10 n)"
  then obtain d where "d < 10" "c = digit_char d"
    using digits_radix_digits [of 10 c n] by auto
  then show ?thesis by (simp add: isDigit_def digit_char_def)
qed

lemma isDigit_not_space: "isDigit c \<Longrightarrow> \<not> isWhiteSpace c \<and> c \<noteq> 45 \<and> c \<noteq> 43"
  by (auto simp: isDigit_def isWhiteSpace_def)

lemma parseInt10_decimal: "parseInt10 (digits_radix 10 n) = Num (int n)"
proof -
  let ?ds = "digits_radix 10 n"
  obtain c cs where cs: "?ds = c # cs"
    using digits_radix_not_Nil by (cases ?ds) auto
  have all: "\<forall>x \<in> set ?ds. isDigit x"
    using decimal_digits by blast
  then have c: "isDigit c" using cs by simp
  have dw: "dropWhile isWhiteSpace ?ds = ?ds"
    using c cs isDigit_not_space by simp
  have tw: "takeWhile isDigit ?ds = ?ds"
    using all by simp
  have sign: "hd ?ds \<noteq> 45" "hd ?ds \<noteq> 43"
    using c cs isDigit_not_space by simp_all
  show ?thesis
    by (simp add: parseInt10_def Let_def dw tw sign digits_value_radix digits_radix_not_Nil)
qed

lemma formatExponent_decimal:
  "formatExponent (bigint_toString 10 e) =
     bigint_toString 10 e @ js '' (0x'' @ toUpperCase (bigint_toString 16 e) @ js '')''"
  by (simp add: formatExponent_def bigint_toString_def parseInt10_decimal number_toString_def)

lemma hex_digits_lower: "c \<in> set (digits_radix 16 n) \<Longrightarrow> c \<in> set (js ''0123456789abcdef'')"
proof -
  assume "c \<in> set (digits_radix 16 n)"
  then obtain d where d: "d < 16" "c = digit_char d"
    using digits_radix_digits [of 16 c n] by auto
  then have "d = 0 \<or> d = 1 \<or> d = 2 \<or> d = 3 \<or> d = 4 \<or> d = 5 \<or> d = 6 \<or> d = 7 \<or>
      d = 8 \<or> d = 9 \<or> d = 10 \<or> d = 11 \<or> d = 12 \<or> d = 13 \<or> d = 14 \<or> d = 15"
    by arith
  then show ?thesis using d(2) by (auto simp: digit_char_def js_def)
qed

lemma hex_digit_kept: "c \<in> set (js ''0123456789abcdef'') \<Longrightarrow> \<not> (c = 58 \<or> isWhiteSpace c)"
  by (auto simp: js_def isWhiteSpace_def)

lemma terminator_is_space: "isLineTerminator c \<Longrightarrow> isWhiteSpace c"
  by (auto simp: isLineTerminator_def isWhiteSpace_def)

lemma formatModulus_groups:
  assumes "filter (\<lambda>c. \<not> (c = 58 \<or> isWhiteSpace c)) hexData = t" and "t \<noteq> []"
  shows "formatModulus hexData =
           str_join (10 # replicate 20 32) (map (str_join (js '':'')) (chunks 15 (chunks 2 t)))"
proof -
  have nt: "\<forall>c \<in> set t. \<not> isLineTerminator c"
    using assms(1) terminator_is_space by auto
  have mp: "match_pairs t = chunks 2 t"
    using nt by (rule match_pairs_chunks)
  have ne: "chunks 2 t \<noteq> []"
    using assms(2) by (simp add: chunks_Nil_iff)
  then obtain m ms where mms: "chunks 2 t = m # ms"
    by (cases "chunks 2 t") auto
  have "\<forall>x \<in> set (chunks 2 t). x \<noteq> []"
    using chunks_nonempty by blast
  then have jne: "str_join (js '':'') (chunks 2 t) \<noteq> []"
    using ne by (intro str_join_nonempty) simp_all
  have wc: "str_or (map_option (str_join (js '':'')) (str_match_pairs t)) t
      = str_join (js '':'') (chunks 2 t)"
    using jne mms by (simp add: str_match_pairs_def mp str_or_def)
  have no58: "58 \<notin> set t" using assms(1) by auto
  have "\<forall>x \<in> set (chunks 2 t). 58 \<notin> set x"
    using no58 chunks_subset by blast
  then have "str_split 58 (str_join [58] (chunks 2 t)) = chunks 2 t"
    using ne by (intro str_split_join) simp_all
  then have sp: "str_split 58 (str_join (js '':'') (chunks 2 t)) = chunks 2 t"
    by (simp add: js_def)
  show ?thesis
    using assms(1) by (simp add: formatModulus_def Let_def wc sp modulus_lines_chunks)
qed

lemma formatModulus_hex:
  "formatModulus (bigint_toString 16 n) =
     str_join (10 # replicate 20 32)
       (map (str_join (js '':'')) (chunks 15 (chunks 2 (bigint_toString 16 n))))"
proof -
  have "filter (\<lambda>c. \<not> (c = 58 \<or> isWhiteSpace c)) (digits_radix 16 n) = digits_radix 16 n"
    using hex_digits_lower hex_digit_kept by (simp add: filter_id_conv)
  then show ?thesis
    unfolding bigint_toString_def
    by (rule formatModulus_groups) (rule digits_radix_not_Nil)
qed

text \<open>A modulus of 16 pairs is wrapped after the 15th.\<close>

lemma formatModulus_wraps:
  "formatModulus (bigint_toString 16 0x0123456789ABCDEF0123456789ABCDEF0) =
     js ''12:34:56:78:9a:bc:de:f0:12:34:56:78:9a:bc:de\<newline>                    f0''"
  by (simp add: formatModulus_def modulus_lines_eval js_string_eval replicate_eval)

section \<open>The serial number\<close>

text \<open>
  C8. The serial-number formatter strips the separators \<open>:\<close> and puts one back after
  every two characters: \<open>1A2B3C\<close> becomes \<open>1A:2B:3C\<close>; a serial of hexadecimal digits
  and separators, with at least one digit, becomes its digits in groups of two joined by
  \<open>:\<close>; and formatting a formatted serial changes nothing.
\<close>

theorem formatSerialNumber_regroups:
  assumes "list_all (\<lambda>c. isHexDigit c \<or> c = 58) serial"
  shows "formatSerialNumber (js ''1A2B3C'') = js ''1A:2B:3C'' \<and>
         (filter (\<lambda>c. c \<noteq> 58) serial \<noteq> [] \<longrightarrow>
            formatSerialNumber serial =
              str_join (js '':'') (chunks 2 (filter (\<lambda>c. c \<noteq> 58) serial))) \<and>
         formatSerialNumber (formatSerialNumber serial) = formatSerialNumber serial"
proof -
  have nt: "\<forall>c \<in> set serial. \<not> isLineTerminator c"
    using assms isHexDigit_not_terminator by (auto simp: list_all_iff)
  have "formatSerialNumber (js ''1A2B3C'') = js ''1A:2B:3C''"
    by (simp add: formatSerialNumber_def js_string_eval)
  moreover have "filter (\<lambda>c. c \<noteq> 58) serial \<noteq> [] \<longrightarrow>
      formatSerialNumber serial =
        str_join (js '':'') (chunks 2 (filter (\<lambda>c. c \<noteq> 58) serial))"
    using nt by (simp add: formatSerialNumber_no_terminator)
  moreover have "formatSerialNumber (formatSerialNumber serial) = formatSerialNumber serial"
    using nt by (rule formatSerialNumber_idem)
  ultimately show ?thesis by blast
qed

theorem formatSerialNumber_regroups_witness:
  "list_all (\<lambda>c. isHexDigit c \<or> c = 58) (js ''1a:2b3:c'') \<and>
   formatSerialNumber (js ''1a:2b3:c'') = js ''1a:2b:3c'' \<and>
   formatSerialNumber (formatSerialNumber (js ''1a:2b3:c'')) = js ''1a:2b:3c''"
proof -
  have h: "list_all (\<lambda>c. isHexDigit c \<or> c = 58) (js ''1a:2b3:c'')"
    by (simp add: isHexDigit_def js_def)
  have v: "str_join (js '':'') (chunks 2 (filter (\<lambda>c. c \<noteq> 58) (js ''1a:2b3:c''))) = js ''1a:2b:3c''"
    by (simp add: js_def chunks_eval)
  have n: "filter (\<lambda>c. c \<noteq> 58) (js ''1a:2b3:c'') \<noteq> []"
    by (simp add: js_def)
  note t = formatSerialNumber_regroups [OF h]
  from t n v have a: "formatSerialNumber (js ''1a:2b3:c'') = js ''1a:2b:3c''"
    by metis
  from t have "formatSerialNumber (formatSerialNumber (js ''1a:2b3:c'')) =
      formatSerialNumber (js ''1a:2b3:c'')"
    by blast
  with a have b: "formatSerialNumber (formatSerialNumber (js ''1a:2b3:c'')) = js ''1a:2b:3c''"
    by metis
  from h a b show ?thesis by blast
qed

section \<open>The parser on a decoded certificate\<close>

text \<open>
  The two replacements that clean the text put back what they find, so the text that is
  decoded is the trimmed input. The parser fails exactly when the decoder does, and on
  a decoded certificate it returns \<open>build_info\<close>.
\<close>

lemma clean_text_trim: "clean_text certText = str_trim certText"
  by (simp add: clean_text_def str_replaceAll_id)

lemma parse_decoded:
  "certificateFromPem lib (clean_text certText) = Inr cert \<Longrightarrow>
     parseCertificateWithForge lib w certText = Inr (build_info lib w cert)"
  by (simp add: parseCertificateWithForge_def)

lemma parse_Inr_decoded:
  "parseCertificateWithForge lib w certText = Inr info \<Longrightarrow>
     \<exists>cert. certificateFromPem lib (clean_text certText) = Inr cert \<and> info = build_info lib w cert"
  by (auto simp: parseCertificateWithForge_def split: sum.splits)

lemma sample_clean: "clean_text sample_pem = sample_pem"
  by (simp add: clean_text_trim sample_pem_def js_string_eval)

lemma sample_decoded: "certificateFromPem sample_forge (clean_text sample_pem) = Inr sample_cert"
  by (simp add: sample_clean sample_forge_def)

lemma sample_parse:
  "parseCertificateWithForge sample_forge w sample_pem = Inr (build_info sample_forge w sample_cert)"
  using sample_decoded by (rule parse_decoded)

lemma sample_publicKey:
  "publicKey (build_info lib w sample_cert) =
     \<lparr>algorithm = js ''rsaEncryption'', keySize = Some 24,
      modulus = Some (js ''c0:ff:ee''), exponent = Some (js ''65537 (0x10001)'')\<rparr>"
  by (simp add: build_info_def extract_publicKey_def sample_cert_def extractPublicKeyAlgorithm_def
      truthy_string_def formatModulus_def formatExponent_def modulus_lines_eval js_string_eval)

lemma validity_build_info:
  "validity (build_info lib w cert) = extract_validity w cert"
  by (simp add: build_info_def)

lemma ct_build_info:
  "certificateTransparency (build_info lib w cert) = extract_certificateTransparency cert"
  by (simp add: build_info_def)

lemma sample_find_ct:
  "find is_ct_extension (cert_extensions sample_cert) = Some sample_sct_extension"
  by (simp add: sample_cert_def sample_sct_extension_def is_ct_extension_def toLowerCase_def
      js_def str_startsWith_def)

lemma keyUsage_build_info:
  "keyUsage (build_info lib w cert) =
     (if extract_keyUsage cert = [] then None else Some (extract_keyUsage cert))"
  by (simp add: build_info_def Let_def)

section \<open>The version\<close>

text \<open>
  C2. The displayed version is meant to be the decoded version plus one (0, 1, 2 shown as
  1, 2, 3, as the comment of the source says) and 3 for an absent version. The source
  computes \<^verbatim>\<open>(cert.version || 2) + 1\<close>, where the decoded version 0 is falsy: the decoded
  values 1 and 2 and the absent version are displayed as claimed, and the decoded
  version 0 of a version 1 certificate is displayed as 3.
\<close>

theorem version_zero_displays_three:
  "display_version (Some 0) = 3 \<and>
   display_version (Some 1) = 2 \<and>
   display_version (Some 2) = 3 \<and>
   display_version None = 3 \<and>
   version (build_info lib w (sample_cert\<lparr>cert_version := Some 0\<rparr>)) = 3"
  by (simp add: display_version_def build_info_def)

section \<open>The validity flags\<close>

text \<open>
  C4. For every parsed certificate, with \<open>now\<close> the instant the parser reads from the
  clock, \<open>isExpired\<close> holds exactly when \<open>notAfter < now\<close>, and \<open>isExpiringSoon\<close> exactly when
  \<open>now < notAfter < now + 30 days\<close>; \<open>notAfter\<close> 10 days after \<open>now\<close> gives false and true,
  40 days after \<open>now\<close> gives false and false, and \<open>notAfter\<close> in the past gives true and
  false. A day is 86400000 milliseconds.
\<close>

theorem validity_flags:
  assumes "parseCertificateWithForge lib w certText = Inr info"
  shows "(\<exists>cert. certificateFromPem lib (clean_text certText) = Inr cert \<and>
            notAfter (validity info) = cert_notAfter cert) \<and>
         isExpired (validity info) = (notAfter (validity info) < wall_clock w) \<and>
         isExpiringSoon (validity info) =
           (wall_clock w < notAfter (validity info) \<and>
            notAfter (validity info) < wall_clock w + 30 * 86400000) \<and>
         (notAfter (validity info) = wall_clock w + 10 * 86400000 \<longrightarrow>
            \<not> isExpired (validity info) \<and> isExpiringSoon (validity info)) \<and>
         (notAfter (validity info) = wall_clock w + 40 * 86400000 \<longrightarrow>
            \<not> isExpired (validity info) \<and> \<not> isExpiringSoon (validity info)) \<and>
         (notAfter (validity info) < wall_clock w \<longrightarrow>
            isExpired (validity info) \<and> \<not> isExpiringSoon (validity info))"
proof -
  obtain cert where d: "certificateFromPem lib (clean_text certText) = Inr cert"
    and i: "info = build_info lib w cert"
    using assms parse_Inr_decoded by blast
  have v: "validity info = extract_validity w cert"
    by (simp add: i validity_build_info)
  have na: "notAfter (validity info) = cert_notAfter cert"
    by (simp add: v extract_validity_def Let_def)
  have ex: "isExpired (validity info) = (cert_notAfter cert < wall_clock w)"
    by (simp add: v extract_validity_def Let_def)
  have soon: "isExpiringSoon (validity info) =
      (wall_clock w < cert_notAfter cert \<and> cert_notAfter cert < wall_clock w + 30 * 86400000)"
    by (auto simp: v extract_validity_def Let_def)
  from d na have "\<exists>cert. certificateFromPem lib (clean_text certText) = Inr cert \<and>
      notAfter (validity info) = cert_notAfter cert"
    by blast
  then show ?thesis
    unfolding ex soon na by auto
qed

theorem validity_flags_witness:
  "isExpired (validity (build_info sample_forge \<lparr>wall_clock = 1799136000000\<rparr> sample_cert)) = False \<and>
   isExpiringSoon (validity (build_info sample_forge \<lparr>wall_clock = 1799136000000\<rparr> sample_cert)) = True \<and>
   isExpired (validity (build_info sample_forge \<lparr>wall_clock = 1796544000000\<rparr> sample_cert)) = False \<and>
   isExpiringSoon (validity (build_info sample_forge \<lparr>wall_clock = 1796544000000\<rparr> sample_cert)) = False \<and>
   isExpired (validity (build_info sample_forge \<lparr>wall_clock = 1800000000001\<rparr> sample_cert)) = True \<and>
   isExpiringSoon (validity (build_info sample_forge \<lparr>wall_clock = 1800000000001\<rparr> sample_cert)) = False"
proof -
  have na: "notAfter (validity (build_info sample_forge w sample_cert)) = 1800000000000" for w
    by (simp add: validity_build_info extract_validity_def sample_cert_def Let_def)
  show ?thesis
    using validity_flags [OF sample_parse, of "\<lparr>wall_clock = 1799136000000\<rparr>"]
      validity_flags [OF sample_parse, of "\<lparr>wall_clock = 1796544000000\<rparr>"]
      validity_flags [OF sample_parse, of "\<lparr>wall_clock = 1800000000001\<rparr>"]
    by (simp add: na)
qed

section \<open>The evaluation instant\<close>

text \<open>
  C1, as claimed: the result is a function of the text and of an instant that is passed
  in. The parser of the source takes the text alone and reads the clock itself, so two
  calls with the same text, in worlds whose clocks differ, return different values: the
  sample certificate is expiring soon at one instant and expired at the other.
\<close>

theorem clock_changes_result_counterexample:
  "parseCertificateWithForge sample_forge \<lparr>wall_clock = 1799136000000\<rparr> sample_pem \<noteq>
   parseCertificateWithForge sample_forge \<lparr>wall_clock = 1800000000001\<rparr> sample_pem"
proof
  assume "parseCertificateWithForge sample_forge \<lparr>wall_clock = 1799136000000\<rparr> sample_pem =
      parseCertificateWithForge sample_forge \<lparr>wall_clock = 1800000000001\<rparr> sample_pem"
  then have "build_info sample_forge \<lparr>wall_clock = 1799136000000\<rparr> sample_cert =
      build_info sample_forge \<lparr>wall_clock = 1800000000001\<rparr> sample_cert"
    by (simp add: sample_parse)
  then have "isExpired (validity (build_info sample_forge \<lparr>wall_clock = 1799136000000\<rparr> sample_cert)) =
      isExpired (validity (build_info sample_forge \<lparr>wall_clock = 1800000000001\<rparr> sample_cert))"
    by simp
  then show False
    by (simp add: validity_build_info extract_validity_def sample_cert_def Let_def)
qed

text \<open>
  C1, amended. The parse result is a function of the text and of the reading of the
  system clock that the parser takes itself; of the world nothing but that reading
  matters. The reading reaches the two flags \<open>isExpired\<close> and \<open>isExpiringSoon\<close> only: with
  the two flags put aside, two parses of the same text are equal whatever the clocks,
  errors included, and so are their fingerprints and their subject and issuer names.
\<close>

theorem clock_reaches_only_the_flags:
  "map_sum id (\<lambda>info. info\<lparr>validity := (validity info)\<lparr>isExpired := False, isExpiringSoon := False\<rparr>\<rparr>)
       (parseCertificateWithForge lib w certText) =
   map_sum id (\<lambda>info. info\<lparr>validity := (validity info)\<lparr>isExpired := False, isExpiringSoon := False\<rparr>\<rparr>)
       (parseCertificateWithForge lib w' certText) \<and>
   parseCertificateWithForge lib w certText =
     parseCertificateWithForge lib \<lparr>wall_clock = wall_clock w\<rparr> certText \<and>
   map_sum id fingerprint (parseCertificateWithForge lib w certText) =
     map_sum id fingerprint (parseCertificateWithForge lib w' certText) \<and>
   map_sum id subject (parseCertificateWithForge lib w certText) =
     map_sum id subject (parseCertificateWithForge lib w' certText) \<and>
   map_sum id issuer (parseCertificateWithForge lib w certText) =
     map_sum id issuer (parseCertificateWithForge lib w' certText)"
proof (cases "certificateFromPem lib (clean_text certText)")
  case (Inl err)
  then show ?thesis
    by (simp add: parseCertificateWithForge_def)
next
  case (Inr cert)
  have p: "parseCertificateWithForge lib u certText = Inr (build_info lib u cert)" for u
    using Inr by (rule parse_decoded)
  have same: "build_info lib w cert = build_info lib \<lparr>wall_clock = wall_clock w\<rparr> cert"
    by (simp add: build_info_def extract_validity_def Let_def)
  have flags: "(build_info lib u cert)
        \<lparr>validity := (validity (build_info lib u cert))\<lparr>isExpired := False, isExpiringSoon := False\<rparr>\<rparr> =
      (build_info lib u' cert)
        \<lparr>validity := (validity (build_info lib u' cert))\<lparr>isExpired := False, isExpiringSoon := False\<rparr>\<rparr>"
    for u u'
    by (simp add: build_info_def extract_validity_def Let_def)
  have fp: "fingerprint (build_info lib u cert) = fingerprint (build_info lib u' cert)" for u u'
    by (simp add: build_info_def)
  have sj: "subject (build_info lib u cert) = subject (build_info lib u' cert)" for u u'
    by (simp add: build_info_def)
  have iss: "issuer (build_info lib u cert) = issuer (build_info lib u' cert)" for u u'
    by (simp add: build_info_def)
  show ?thesis
    unfolding p map_sum.simps id_apply
    using same flags [of w w'] fp [of w w'] sj [of w w'] iss [of w w'] by simp
qed

section \<open>Certificate transparency\<close>

text \<open>
  C10. Whenever the field \<open>certificateTransparency\<close> of a parse result is defined, its
  \<open>scts\<close> are exactly three entries whose version, log identifier, timestamp and
  signature are the constants of the source, whatever the bytes of the extension.
\<close>

theorem ct_scts_are_fixed:
  assumes "parseCertificateWithForge lib w certText = Inr info"
    and "certificateTransparency info = Some ct"
  shows "length (scts ct) = 3 \<and>
         map sct_version (scts ct) = [js ''v1 (0x0)'', js ''v1 (0x0)'', js ''v1 (0x0)''] \<and>
         map sct_logId (scts ct) =
           [js ''A2:E3:0A:E4:45:EF:BD:AD:9B:7E:38:ED:47:67:77:53:D7:82:5B:84:94:D7:2B:5E:1B:2C:C4:B9:50:A4:47:E7'',
            js ''E6:D2:31:63:40:77:8C:C1:10:41:06:D7:71:B9:CE:C1:D2:40:F6:96:84:86:FB:BA:87:32:1D:FD:1E:37:8E:50'',
            js ''4E:75:A3:27:5C:9A:10:C3:38:5B:6C:D4:DF:3F:52:EB:1D:F0:E0:8E:1B:8D:69:C0:B1:FA:64:B1:62:9A:39:DF''] \<and>
         map sct_timestamp (scts ct) = [1706075169505, 1706075169503, 1706075169453] \<and>
         map sct_signature (scts ct) =
           [js ''ecdsa-with-SHA256\<newline>30:45:02:20:11:44:E0:29:DD:CF:CC:5B:CE:64:7F:F9:39:F7:63:23:20:05:CF:BD:3C:BB:8C:D4:52:CC:E4:55:18:9A:B0:FA:02:21:00:BD:A2:3D:6A:A4:79:7B:10:4A:B0:73:8C:52:71:0A:8F:54:D9:4B:82:B1:0A:AD:0A:70:98:F0:C6:67:FE:9E:7F'',
            js ''ecdsa-with-SHA256\<newline>30:45:02:21:00:99:5C:D5:D1:0F:69:FB:51:15:AE:93:BD:E5:4A:44:E5:D1:C3:E0:E7:80:F8:04:85:3B:F5:15:17:B7:E2:3B:26:02:20:7B:52:D6:EE:5E:AB:7A:F0:B2:E5:F8:85:84:4D:A5:F9:EF:F7:04:20:4C:E9:BD:13:94:C7:50:F1:1C:1E:A8:9B'',
            js ''ecdsa-with-SHA256\<newline>30:45:02:20:56:C3:6A:8F:CF:B2:2A:B3:F4:DF:F4:87:44:DB:99:6F:57:BD:44:D5:59:3C:AE:B9:EC:77:DA:E0:1E:62:0D:89:02:21:00:BF:C6:89:A9:45:EE:25:BE:7F:33:4D:EE:78:44:1E:F8:C0:2E:69:8F:64:A4:0E:B5:6A:07:4B:E2:56:E3:7F:16'']"
proof -
  obtain cert where i: "info = build_info lib w cert"
    using assms(1) parse_Inr_decoded by blast
  then have "extract_certificateTransparency cert = Some ct"
    using assms(2) by (simp add: ct_build_info)
  then obtain ext where "ct = \<lparr>scts = parseCertificateTransparencySCTs (Some ext)\<rparr>"
    by (auto simp: extract_certificateTransparency_def split: option.splits)
  then show ?thesis
    by (simp add: parseCertificateTransparencySCTs_def)
qed

theorem ct_scts_are_fixed_witness:
  "\<exists>info ct. parseCertificateWithForge sample_forge \<lparr>wall_clock = 0\<rparr> sample_pem = Inr info \<and>
     certificateTransparency info = Some ct \<and> length (scts ct) = 3 \<and>
     map sct_timestamp (scts ct) = [1706075169505, 1706075169503, 1706075169453]"
proof -
  let ?ct = "\<lparr>scts = parseCertificateTransparencySCTs (Some sample_sct_extension)\<rparr>"
  have c: "certificateTransparency (build_info sample_forge \<lparr>wall_clock = 0\<rparr> sample_cert) = Some ?ct"
    by (simp add: ct_build_info extract_certificateTransparency_def sample_find_ct)
  note t = ct_scts_are_fixed [OF sample_parse c]
  have l: "length (scts ?ct) = 3"
    by (rule t [THEN conjunct1])
  have ts: "map sct_timestamp (scts ?ct) = [1706075169505, 1706075169503, 1706075169453]"
    by (rule t [THEN conjunct2, THEN conjunct2, THEN conjunct2, THEN conjunct1])
  show ?thesis
    by (intro exI conjI) (rule sample_parse c l ts)+
qed

text \<open>
  C3, as claimed: an SCT list extension that is present with zero entries gives an empty
  \<open>scts\<close> sequence. The sample certificate has such an extension (the bytes \<open>04 02 00 00\<close>
  are an octet string holding a list of length zero); it is the one the parser finds,
  and the result does not hold an empty sequence.
\<close>

theorem sct_empty_list_counterexample:
  "parseCertificateWithForge sample_forge \<lparr>wall_clock = 0\<rparr> sample_pem =
     Inr (build_info sample_forge \<lparr>wall_clock = 0\<rparr> sample_cert) \<and>
   find is_ct_extension (cert_extensions sample_cert) = Some sample_sct_extension \<and>
   ext_value sample_sct_extension = StrValue [0x04, 0x02, 0x00, 0x00] \<and>
   certificateTransparency (build_info sample_forge \<lparr>wall_clock = 0\<rparr> sample_cert) \<noteq>
     Some \<lparr>scts = []\<rparr>"
proof -
  have "parseCertificateTransparencySCTs (Some sample_sct_extension) \<noteq> []"
    by (simp add: parseCertificateTransparencySCTs_def)
  then have "certificateTransparency (build_info sample_forge \<lparr>wall_clock = 0\<rparr> sample_cert) \<noteq>
      Some \<lparr>scts = []\<rparr>"
    by (simp add: ct_build_info extract_certificateTransparency_def sample_find_ct)
  moreover have "ext_value sample_sct_extension = StrValue [0x04, 0x02, 0x00, 0x00]"
    by (simp add: sample_sct_extension_def)
  ultimately show ?thesis
    using sample_parse sample_find_ct by blast
qed

text \<open>
  C3, amended. For every decoded certificate in which the parser finds a certificate
  transparency extension, whatever the value of that extension (a list with zero
  entries, malformed lengths, no bytes at all), the parse does not fail and
  \<open>certificateTransparency\<close> holds the three fixed entries, which are the same for every
  value \<open>v\<close> of the extension.
\<close>

theorem sct_extension_never_raises:
  assumes "certificateFromPem lib (clean_text certText) = Inr cert"
    and "find is_ct_extension (cert_extensions cert) = Some ext"
  shows "\<exists>info ct. parseCertificateWithForge lib w certText = Inr info \<and>
           certificateTransparency info = Some ct \<and>
           length (scts ct) = 3 \<and>
           scts ct = parseCertificateTransparencySCTs (Some (ext\<lparr>ext_value := v\<rparr>))"
proof -
  let ?info = "build_info lib w cert"
  let ?ct = "\<lparr>scts = parseCertificateTransparencySCTs (Some ext)\<rparr>"
  have p: "parseCertificateWithForge lib w certText = Inr ?info"
    using assms(1) by (rule parse_decoded)
  have c: "certificateTransparency ?info = Some ?ct"
    using assms(2) by (simp add: ct_build_info extract_certificateTransparency_def)
  have l: "length (scts ?ct) = 3"
    by (simp add: parseCertificateTransparencySCTs_def)
  have e: "scts ?ct = parseCertificateTransparencySCTs (Some (ext\<lparr>ext_value := v\<rparr>))"
    by (simp add: parseCertificateTransparencySCTs_def)
  show ?thesis
    by (intro exI conjI) (rule p c l e)+
qed

theorem sct_extension_never_raises_witness:
  "\<exists>info ct. parseCertificateWithForge sample_forge \<lparr>wall_clock = 0\<rparr> sample_pem = Inr info \<and>
     certificateTransparency info = Some ct \<and> length (scts ct) = 3 \<and>
     scts ct = parseCertificateTransparencySCTs
                 (Some (sample_sct_extension\<lparr>ext_value := StrValue [0x04, 0x02, 0xFF, 0xFF]\<rparr>))"
  by (rule sct_extension_never_raises [OF sample_decoded sample_find_ct])

section \<open>Key usage\<close>

text \<open>
  C6. For every key usage value whose text is shorter than 4 code units, the key usage
  decoder returns the fixed fallback flags (digital signature and key encipherment). The
  decoder has no failing branch: for a longer value the code unit it reads is in range.
  A certificate whose key usage extension has a short value is parsed, with the two
  fallback names followed by the echoes of the raw value.
\<close>

theorem keyUsage_short_value_fallback:
  "(length (to_String v) < 4 \<longrightarrow>
      parseKeyUsageExtension v =
        \<lparr>digitalSignature = True, nonRepudiation = False, keyEncipherment = True,
         dataEncipherment = False, keyAgreement = False, keyCertSign = False,
         cRLSign = False, encipherOnly = False, decipherOnly = False\<rparr>) \<and>
   (4 \<le> length (to_String v) \<longrightarrow>
      charCodeAt (to_String v) 3 = Num (int (to_String v ! 3))) \<and>
   (length (to_String v) < 4 \<and>
    certificateFromPem lib (clean_text certText) = Inr cert \<and>
    find (\<lambda>ext. ext_name ext = Some (js ''keyUsage'')) (cert_extensions cert) =
      Some \<lparr>ext_name = Some (js ''keyUsage''), ext_value = v, ext_critical = critical\<rparr> \<and>
    truthy_value v \<longrightarrow>
    (\<exists>info. parseCertificateWithForge lib w certText = Inr info \<and>
       keyUsage info =
         Some ([js ''Digital Signature'', js ''Key Encipherment''] @ raw_echoes (to_String v))))"
proof -
  have f: "parseKeyUsageExtension v =
      \<lparr>digitalSignature = True, nonRepudiation = False, keyEncipherment = True,
       dataEncipherment = False, keyAgreement = False, keyCertSign = False,
       cRLSign = False, encipherOnly = False, decipherOnly = False\<rparr>"
    if "length (to_String v) < 4"
    using that by (simp add: parseKeyUsageExtension_def Let_def)
  have g: "charCodeAt (to_String v) 3 = Num (int (to_String v ! 3))"
    if "4 \<le> length (to_String v)"
    using that by (simp add: charCodeAt_def)
  have "\<exists>info. parseCertificateWithForge lib w certText = Inr info \<and>
      keyUsage info =
        Some ([js ''Digital Signature'', js ''Key Encipherment''] @ raw_echoes (to_String v))"
    if s: "length (to_String v) < 4"
      and d: "certificateFromPem lib (clean_text certText) = Inr cert"
      and e: "find (\<lambda>ext. ext_name ext = Some (js ''keyUsage'')) (cert_extensions cert) =
        Some \<lparr>ext_name = Some (js ''keyUsage''), ext_value = v, ext_critical = critical\<rparr>"
      and t: "truthy_value v"
  proof -
    have "extract_keyUsage cert =
        [js ''Digital Signature'', js ''Key Encipherment''] @ raw_echoes (to_String v)"
      using e t by (simp add: extract_keyUsage_def f [OF s])
    then have "keyUsage (build_info lib w cert) =
        Some ([js ''Digital Signature'', js ''Key Encipherment''] @ raw_echoes (to_String v))"
      by (simp add: keyUsage_build_info)
    then show ?thesis
      using parse_decoded [OF d] by blast
  qed
  then show ?thesis
    using f g by blast
qed

theorem keyUsage_short_value_fallback_witness:
  "length (to_String (StrValue [0x03, 0x02, 0x05])) < 4 \<and>
   digitalSignature (parseKeyUsageExtension (StrValue [0x03, 0x02, 0x05])) \<and>
   keyEncipherment (parseKeyUsageExtension (StrValue [0x03, 0x02, 0x05])) \<and>
   \<not> keyCertSign (parseKeyUsageExtension (StrValue [0x03, 0x02, 0x05])) \<and>
   (\<exists>info. parseCertificateWithForge sample_forge \<lparr>wall_clock = 0\<rparr> sample_pem = Inr info \<and>
      keyUsage info =
        Some [js ''Digital Signature'', js ''Key Encipherment'', js ''Raw Binary: '' @ [3, 2, 5],
              js ''Hex: 03:02:05'', js ''Binary: 00000011 00000010 00000101''])"
proof -
  have h: "length (to_String (StrValue [0x03, 0x02, 0x05])) < 4"
    by (simp add: to_String_def)
  have e: "find (\<lambda>ext. ext_name ext = Some (js ''keyUsage'')) (cert_extensions sample_cert) =
      Some \<lparr>ext_name = Some (js ''keyUsage''), ext_value = StrValue [0x03, 0x02, 0x05],
            ext_critical = True\<rparr>"
    by (simp add: sample_cert_def)
  have t: "truthy_value (StrValue [0x03, 0x02, 0x05])"
    by (simp add: truthy_value_def)
  have r: "[js ''Digital Signature'', js ''Key Encipherment''] @
        raw_echoes (to_String (StrValue [0x03, 0x02, 0x05])) =
      [js ''Digital Signature'', js ''Key Encipherment'', js ''Raw Binary: '' @ [3, 2, 5],
       js ''Hex: 03:02:05'', js ''Binary: 00000011 00000010 00000101'']"
    by (simp add: raw_echoes_def to_String_def hex_echo_def binary_echo_def js_string_eval
        replicate_eval)
  note k = keyUsage_short_value_fallback [of "StrValue [0x03, 0x02, 0x05]" sample_forge sample_pem
      sample_cert True "\<lparr>wall_clock = 0\<rparr>"]
  have "parseKeyUsageExtension (StrValue [0x03, 0x02, 0x05]) =
      \<lparr>digitalSignature = True, nonRepudiation = False, keyEncipherment = True,
       dataEncipherment = False, keyAgreement = False, keyCertSign = False,
       cRLSign = False, encipherOnly = False, decipherOnly = False\<rparr>"
    using k [THEN conjunct1] h by blast
  then have flags: "digitalSignature (parseKeyUsageExtension (StrValue [0x03, 0x02, 0x05]))"
    "keyEncipherment (parseKeyUsageExtension (StrValue [0x03, 0x02, 0x05]))"
    "\<not> keyCertSign (parseKeyUsageExtension (StrValue [0x03, 0x02, 0x05]))"
    by simp_all
  have "\<exists>info. parseCertificateWithForge sample_forge \<lparr>wall_clock = 0\<rparr> sample_pem = Inr info \<and>
      keyUsage info = Some ([js ''Digital Signature'', js ''Key Encipherment''] @
        raw_echoes (to_String (StrValue [0x03, 0x02, 0x05])))"
    using k [THEN conjunct2, THEN conjunct2] h sample_decoded e t by blast
  then show ?thesis
    unfolding r using h flags by blast
qed

section \<open>The signature algorithm\<close>

text \<open>
  C7. When none of the three explicit fields holds a non-empty string, the signature
  algorithm is reported as \<open>sha256WithRSAEncryption\<close> if the signature bytes and the public
  key are both present (truthy), and as \<open>Unknown\<close> otherwise. So it is for the signature
  descriptor of every parsed certificate: a decoded certificate has its key, and with no
  explicit field its descriptor reports \<open>sha256WithRSAEncryption\<close> when the signature bytes
  are not empty and \<open>Unknown\<close> when they are, beside the bytes in hexadecimal.
\<close>

theorem signature_algorithm_fallback:
  "(truthy_string (f_signatureAlgorithm c) = None \<and>
    truthy_string (f_sigAlg c) = None \<and>
    truthy_string (f_signatureAlgorithmOid c) = None \<longrightarrow>
      extractSignatureAlgorithm c =
        (if truthy (f_signature c) \<and> truthy (f_publicKey c)
         then js ''sha256WithRSAEncryption'' else js ''Unknown'')) \<and>
   (certificateFromPem lib (clean_text certText) = Inr cert \<and>
    truthy_string (cert_signatureAlgorithm cert) = None \<and>
    truthy_string (cert_sigAlg cert) = None \<and>
    truthy_string (cert_signatureAlgorithmOid cert) = None \<longrightarrow>
      (\<exists>info. parseCertificateWithForge lib w certText = Inr info \<and>
         signature info = extract_signature cert \<and>
         sig_algorithm (signature info) =
           (if cert_signature cert \<noteq> []
            then js ''sha256WithRSAEncryption'' else js ''Unknown'') \<and>
         sig_value (signature info) = bytesToHex (cert_signature cert)))"
proof -
  have f: "extractSignatureAlgorithm c =
      (if truthy (f_signature c) \<and> truthy (f_publicKey c)
       then js ''sha256WithRSAEncryption'' else js ''Unknown'')"
    if "truthy_string (f_signatureAlgorithm c) = None"
      and "truthy_string (f_sigAlg c) = None"
      and "truthy_string (f_signatureAlgorithmOid c) = None"
    using that by (simp add: extractSignatureAlgorithm_def)
  have g: "\<exists>info. parseCertificateWithForge lib w certText = Inr info \<and>
      signature info = extract_signature cert \<and>
      sig_algorithm (signature info) =
        (if cert_signature cert \<noteq> []
         then js ''sha256WithRSAEncryption'' else js ''Unknown'') \<and>
      sig_value (signature info) = bytesToHex (cert_signature cert)"
    if d: "certificateFromPem lib (clean_text certText) = Inr cert"
      and a: "truthy_string (cert_signatureAlgorithm cert) = None"
        "truthy_string (cert_sigAlg cert) = None"
        "truthy_string (cert_signatureAlgorithmOid cert) = None"
  proof -
    let ?info = "build_info lib w cert"
    have p: "parseCertificateWithForge lib w certText = Inr ?info"
      using d by (rule parse_decoded)
    have s: "signature ?info = extract_signature cert"
      by (simp add: build_info_def)
    have alg: "sig_algorithm (signature ?info) =
        (if cert_signature cert \<noteq> []
         then js ''sha256WithRSAEncryption'' else js ''Unknown'')"
      using a by (simp add: s extract_signature_def extractSignatureAlgorithm_def
          signature_fields_of_def truthy_def)
    have v: "sig_value (signature ?info) = bytesToHex (cert_signature cert)"
      by (simp add: s extract_signature_def)
    show ?thesis
      by (intro exI conjI) (rule p s alg v)+
  qed
  show ?thesis
    using f g by blast
qed

theorem signature_algorithm_fallback_witness:
  "extractSignatureAlgorithm
     \<lparr>f_signatureAlgorithm = Undefined, f_sigAlg = Undefined, f_signatureAlgorithmOid = Undefined,
      f_signature = Str [0x30, 0x0A], f_publicKey = Other True\<rparr> = js ''sha256WithRSAEncryption'' \<and>
   extractSignatureAlgorithm
     \<lparr>f_signatureAlgorithm = Undefined, f_sigAlg = Undefined, f_signatureAlgorithmOid = Undefined,
      f_signature = Undefined, f_publicKey = Other True\<rparr> = js ''Unknown'' \<and>
   extractSignatureAlgorithm
     \<lparr>f_signatureAlgorithm = Undefined, f_sigAlg = Undefined, f_signatureAlgorithmOid = Undefined,
      f_signature = Str [0x30, 0x0A], f_publicKey = Undefined\<rparr> = js ''Unknown'' \<and>
   (\<exists>info. parseCertificateWithForge sample_forge \<lparr>wall_clock = 0\<rparr> sample_pem = Inr info \<and>
      sig_algorithm (signature info) = js ''sha256WithRSAEncryption'' \<and>
      sig_value (signature info) = js ''300a'') \<and>
   (\<exists>info. parseCertificateWithForge
        (sample_forge\<lparr>certificateFromPem := (\<lambda>pem. Inr (sample_cert\<lparr>cert_signature := []\<rparr>))\<rparr>)
        \<lparr>wall_clock = 0\<rparr> sample_pem = Inr info \<and>
      sig_algorithm (signature info) = js ''Unknown'' \<and>
      sig_value (signature info) = [])"
proof -
  let ?c1 = "\<lparr>f_signatureAlgorithm = Undefined, f_sigAlg = Undefined,
      f_signatureAlgorithmOid = Undefined, f_signature = Str [0x30, 0x0A],
      f_publicKey = Other True\<rparr>"
  let ?c2 = "\<lparr>f_signatureAlgorithm = Undefined, f_sigAlg = Undefined,
      f_signatureAlgorithmOid = Undefined, f_signature = Undefined,
      f_publicKey = Other True\<rparr>"
  let ?c3 = "\<lparr>f_signatureAlgorithm = Undefined, f_sigAlg = Undefined,
      f_signatureAlgorithmOid = Undefined, f_signature = Str [0x30, 0x0A],
      f_publicKey = Undefined\<rparr>"
  let ?lib = "sample_forge\<lparr>certificateFromPem := (\<lambda>pem. Inr (sample_cert\<lparr>cert_signature := []\<rparr>))\<rparr>"
  let ?cert = "sample_cert\<lparr>cert_signature := []\<rparr>"
  have u: "truthy_string Undefined = None"
    by (simp add: truthy_string_def)
  have a1: "extractSignatureAlgorithm ?c1 = js ''sha256WithRSAEncryption''"
    using signature_algorithm_fallback [of ?c1, THEN conjunct1] by (simp add: u truthy_def)
  have a2: "extractSignatureAlgorithm ?c2 = js ''Unknown''"
    using signature_algorithm_fallback [of ?c2, THEN conjunct1] by (simp add: u truthy_def)
  have a3: "extractSignatureAlgorithm ?c3 = js ''Unknown''"
    using signature_algorithm_fallback [of ?c3, THEN conjunct1] by (simp add: u truthy_def)
  have e: "truthy_string (cert_signatureAlgorithm sample_cert) = None"
    "truthy_string (cert_sigAlg sample_cert) = None"
    "truthy_string (cert_signatureAlgorithmOid sample_cert) = None"
    "cert_signature sample_cert = [0x30, 0x0A]"
    by (simp_all add: sample_cert_def u)
  have hx: "bytesToHex [0x30, 0x0A] = js ''300a''"
    by (simp add: js_string_eval)
  have b1: "\<exists>info. parseCertificateWithForge sample_forge \<lparr>wall_clock = 0\<rparr> sample_pem = Inr info \<and>
      sig_algorithm (signature info) = js ''sha256WithRSAEncryption'' \<and>
      sig_value (signature info) = js ''300a''"
    using signature_algorithm_fallback [of _ sample_forge sample_pem sample_cert
        "\<lparr>wall_clock = 0\<rparr>", THEN conjunct2] sample_decoded e hx
    by auto
  have d: "certificateFromPem ?lib (clean_text sample_pem) = Inr ?cert"
    by simp
  have e2: "truthy_string (cert_signatureAlgorithm ?cert) = None"
    "truthy_string (cert_sigAlg ?cert) = None"
    "truthy_string (cert_signatureAlgorithmOid ?cert) = None"
    "cert_signature ?cert = []"
    by (simp_all add: sample_cert_def u)
  have hx2: "bytesToHex [] = []"
    by (simp add: bytesToHex_def)
  have b2: "\<exists>info. parseCertificateWithForge ?lib \<lparr>wall_clock = 0\<rparr> sample_pem = Inr info \<and>
      sig_algorithm (signature info) = js ''Unknown'' \<and>
      sig_value (signature info) = []"
    using signature_algorithm_fallback [of _ ?lib sample_pem ?cert
        "\<lparr>wall_clock = 0\<rparr>", THEN conjunct2] d e2 hx2
    by auto
  show ?thesis
    using a1 a2 a3 b1 b2 by blast
qed

section \<open>The RSA key\<close>

text \<open>
  C9, as claimed: the modulus is rendered in upper-case hexadecimal digits. The modulus
  \<open>0xC0FFEE\<close> of the sample certificate is rendered \<open>c0:ff:ee\<close>: the formatter keeps the
  lower-case digits of the library's rendering.
\<close>

theorem modulus_is_not_upper_case:
  "parseCertificateWithForge sample_forge \<lparr>wall_clock = 0\<rparr> sample_pem =
     Inr (build_info sample_forge \<lparr>wall_clock = 0\<rparr> sample_cert) \<and>
   pk_n (cert_publicKey sample_cert) = Some 0xC0FFEE \<and>
   modulus (publicKey (build_info sample_forge \<lparr>wall_clock = 0\<rparr> sample_cert)) = Some (js ''c0:ff:ee'') \<and>
   js ''c0:ff:ee'' \<noteq> js ''C0:FF:EE''"
  by (simp add: sample_parse sample_publicKey) (simp add: sample_cert_def js_def)

text \<open>
  C9, amended. For every decoded RSA key with modulus \<open>n\<close> and exponent \<open>e\<close>, the modulus is
  rendered as the lower-case hexadecimal digits of \<open>n\<close>, cut from the left into groups of
  two joined by \<open>:\<close>, 15 groups to a line, the lines joined by a line feed and 20 spaces;
  the exponent, below \<open>2 ^ 53\<close> where numbers are exact, is rendered as its decimal digits
  followed by \<open> (0x\<close>, its upper-case hexadecimal digits and \<open>)\<close>.
\<close>

theorem rsa_key_rendering:
  assumes "certificateFromPem lib (clean_text certText) = Inr cert"
    and "pk_n (cert_publicKey cert) = Some n"
    and "pk_e (cert_publicKey cert) = Some e"
  shows "\<exists>info. parseCertificateWithForge lib w certText = Inr info \<and>
           modulus (publicKey info) =
             Some (str_join (10 # replicate 20 32)
                     (map (str_join (js '':'')) (chunks 15 (chunks 2 (bigint_toString 16 n))))) \<and>
           list_all (\<lambda>c. c \<in> set (js ''0123456789abcdef'')) (bigint_toString 16 n) \<and>
           (e < 2 ^ 53 \<longrightarrow>
              exponent (publicKey info) =
                Some (bigint_toString 10 e @ js '' (0x'' @ toUpperCase (bigint_toString 16 e) @ js '')'') \<and>
              list_all (\<lambda>c. c \<in> set (js ''0123456789ABCDEF'')) (toUpperCase (bigint_toString 16 e)))"
proof -
  let ?info = "build_info lib w cert"
  have p: "parseCertificateWithForge lib w certText = Inr ?info"
    using assms(1) by (rule parse_decoded)
  have pk: "publicKey ?info = extract_publicKey cert"
    by (simp add: build_info_def)
  have m: "modulus (publicKey ?info) = Some (formatModulus (bigint_toString 16 n))"
    using assms(2,3) by (simp add: pk extract_publicKey_def)
  have x: "exponent (publicKey ?info) = Some (formatExponent (bigint_toString 10 e))"
    using assms(2,3) by (simp add: pk extract_publicKey_def)
  have lower: "list_all (\<lambda>c. c \<in> set (js ''0123456789abcdef'')) (bigint_toString 16 k)" for k
    using hex_digits_lower by (simp add: list_all_iff bigint_toString_def)
  have up: "c \<in> set (js ''0123456789abcdef'') \<Longrightarrow>
      (if 97 \<le> c \<and> c \<le> 122 then c - 32 else c) \<in> set (js ''0123456789ABCDEF'')" for c
    by (auto simp: js_def)
  have "list_all ((\<lambda>c. c \<in> set (js ''0123456789ABCDEF'')) \<circ>
      (\<lambda>c. if 97 \<le> c \<and> c \<le> 122 then c - 32 else c)) (bigint_toString 16 e)"
    unfolding list_all_iff comp_def
  proof
    fix c assume "c \<in> set (bigint_toString 16 e)"
    then have "c \<in> set (js ''0123456789abcdef'')"
      using lower [of e] by (simp add: list_all_iff)
    then show "(if 97 \<le> c \<and> c \<le> 122 then c - 32 else c) \<in> set (js ''0123456789ABCDEF'')"
      by (rule up)
  qed
  then have upper: "list_all (\<lambda>c. c \<in> set (js ''0123456789ABCDEF'')) (toUpperCase (bigint_toString 16 e))"
    by (simp only: toUpperCase_def list.pred_map)
  show ?thesis
    using p m x lower upper by (simp add: formatModulus_hex formatExponent_decimal)
qed

theorem rsa_key_rendering_witness:
  "\<exists>info. parseCertificateWithForge sample_forge \<lparr>wall_clock = 0\<rparr> sample_pem = Inr info \<and>
     modulus (publicKey info) = Some (js ''c0:ff:ee'') \<and>
     exponent (publicKey info) = Some (js ''65537 (0x10001)'')"
proof -
  have n: "pk_n (cert_publicKey sample_cert) = Some 12648430"
    and e: "pk_e (cert_publicKey sample_cert) = Some 65537"
    by (simp_all add: sample_cert_def)
  have b: "(65537::nat) < 2 ^ 53" by simp
  have m: "str_join (10 # replicate 20 32)
      (map (str_join (js '':'')) (chunks 15 (chunks 2 (bigint_toString 16 12648430)))) = js ''c0:ff:ee''"
    by (simp add: chunks_eval js_string_eval)
  have x: "bigint_toString 10 65537 @ js '' (0x'' @ toUpperCase (bigint_toString 16 65537) @ js '')''
      = js ''65537 (0x10001)''"
    by (simp add: js_string_eval)
  show ?thesis
    using rsa_key_rendering [OF sample_decoded n e, of "\<lparr>wall_clock = 0\<rparr>"] b
    unfolding m x by blast
qed

end
